theory Spec2Isabelle
  imports Complex_Main
begin

section \<open>Python values and failures\<close>

text \<open>
  The two deserializers are Python. Every exception the modelled code can raise is a
  value: a lookup in a dict raises KeyError with the missing key, a list index out of
  range raises IndexError, \<open>float\<close>/\<open>int\<close>/\<open>strptime\<close> on an unsuitable
  string raise ValueError, \<open>float(None)\<close> raises TypeError, a method call on None raises
  AttributeError, and the deserializers themselves raise DeserializationError with a
  message. A computation is \<open>error + 'a\<close>, \<open>Inl\<close> being the raised exception.
\<close>

datatype key = IntKey int | StrKey string

datatype error =
    DeserializationError string
  | KeyError key
  | IndexError
  | ValueError
  | TypeError
  | AttributeError

definition bind_err :: "error + 'a \<Rightarrow> ('a \<Rightarrow> error + 'b) \<Rightarrow> error + 'b" where
  "bind_err m f = (case m of Inl e \<Rightarrow> Inl e | Inr v \<Rightarrow> f v)"

section \<open>The canonical domain (kloppy.domain), as far as the deserializers use it\<close>

datatype ball_state = ALIVE | DEAD

datatype ground = HOME | AWAY

datatype pass_result = PassResult_COMPLETE | PassResult_INCOMPLETE | PassResult_OFFSIDE

datatype take_on_result = TakeOnResult_COMPLETE | TakeOnResult_INCOMPLETE

datatype shot_result = GOAL | OWN_GOAL | OFF_TARGET

datatype card_type = RED | FIRST_YELLOW | SECOND_YELLOW

datatype set_piece_type = CORNER_KICK | FREE_KICK | PENALTY | THROW_IN | KICK_OFF | GOAL_KICK

datatype body_part = HEAD | LEFT_FOOT | RIGHT_FOOT | OTHER

datatype pass_type =
  CROSS | LONG_BALL | CHIPPED_PASS | THROUGH_BALL | LAUNCH | FLICK_ON | ASSIST | ASSIST_2ND

datatype formation_type =
    FOUR_FOUR_TWO | FOUR_ONE_TWO_ONE_TWO | FOUR_THREE_THREE | FOUR_FIVE_ONE
  | FOUR_FOUR_ONE_ONE | FOUR_ONE_FOUR_ONE | FOUR_TWO_THREE_ONE | FOUR_THREE_TWO_ONE
  | FIVE_THREE_TWO | FIVE_FOUR_ONE | THREE_FIVE_TWO | THREE_FOUR_THREE
  | THREE_ONE_THREE_ONE_TWO | FOUR_TWO_TWO_TWO | THREE_FIVE_ONE_ONE | THREE_FOUR_TWO_ONE
  | THREE_FOUR_ONE_TWO | THREE_ONE_FOUR_TWO | THREE_ONE_TWO_ONE_THREE | FOUR_ONE_THREE_TWO
  | FOUR_TWO_FOUR_ZERO | FOUR_THREE_ONE_TWO | THREE_TWO_FOUR_ONE | THREE_THREE_THREE_ONE

text \<open>
  A qualifier is a tagged value of one of four categories; the deserializers build them
  as \<open>SetPieceQualifier(value=...)\<close>, \<open>BodyPartQualifier(value=...)\<close>,
  \<open>PassQualifier(value=...)\<close> and \<open>CardQualifier(value=...)\<close>.
\<close>

datatype qualifier =
    SetPieceQualifier set_piece_type
  | BodyPartQualifier body_part
  | PassQualifier pass_type
  | CardQualifier card_type

text \<open>
  Coordinates are Python floats in the source. A finite float is modelled by the real
  number it denotes; infinities and NaN are outside the model. Float arithmetic rounds:
  the result of a float operation is the exact result rounded to 53 significant bits, to
  the nearest such number and to the even one on a tie (IEEE 754 binary64, in the range
  without overflow and subnormal results, which \<open>100 - x\<close> never leaves).
  \<open>binade v\<close> is the exponent \<open>k\<close> with \<open>2^k \<le> |v| < 2^(k+1)\<close>.
\<close>

datatype point = Point (x_of: real) (y_of: real)

definition pow2 :: "int \<Rightarrow> real" where
  "pow2 e = (if 0 \<le> e then 2 ^ nat e else 1 / 2 ^ nat (- e))"

definition round_half_even :: "real \<Rightarrow> int" where
  "round_half_even q =
     (let f = \<lfloor>q\<rfloor>; d = q - of_int f
      in if d < 1 / 2 then f else if 1 / 2 < d then f + 1 else if even f then f else f + 1)"

definition binade :: "real \<Rightarrow> int" where
  "binade v = \<lfloor>log 2 \<bar>v\<bar>\<rfloor>"

definition round_binary64 :: "real \<Rightarrow> real" where
  "round_binary64 v =
     (if v = 0 then 0
      else of_int (round_half_even (v / pow2 (binade v - 52))) * pow2 (binade v - 52))"

text \<open>\<open>a - b\<close> on two floats.\<close>

definition float_sub :: "real \<Rightarrow> real \<Rightarrow> real" where
  "float_sub a b = round_binary64 (a - b)"

record player =
  player_id :: string

record team =
  team_id :: string
  ground_of :: ground
  players :: "player list"

text \<open>
  A datetime is the number of microseconds since the epoch, a timedelta their
  difference; the timestamps of one feed are taken to be all offset-aware or all naive
  (Python refuses the difference of an aware and a naive datetime with TypeError, which
  is not modelled). A period's timestamps are None until set.
\<close>

record period =
  period_id :: int
  start_timestamp :: "int option"
  end_timestamp :: "int option"

section \<open>Stats Perform: constants\<close>

definition EVENT_TYPE_START_PERIOD :: int where "EVENT_TYPE_START_PERIOD = 32"
definition EVENT_TYPE_END_PERIOD :: int where "EVENT_TYPE_END_PERIOD = 30"
definition EVENT_TYPE_PASS :: int where "EVENT_TYPE_PASS = 1"
definition EVENT_TYPE_OFFSIDE_PASS :: int where "EVENT_TYPE_OFFSIDE_PASS = 2"
definition EVENT_TYPE_TAKE_ON :: int where "EVENT_TYPE_TAKE_ON = 3"
definition EVENT_TYPE_SHOT_MISS :: int where "EVENT_TYPE_SHOT_MISS = 13"
definition EVENT_TYPE_SHOT_POST :: int where "EVENT_TYPE_SHOT_POST = 14"
definition EVENT_TYPE_SHOT_SAVED :: int where "EVENT_TYPE_SHOT_SAVED = 15"
definition EVENT_TYPE_SHOT_GOAL :: int where "EVENT_TYPE_SHOT_GOAL = 16"
definition EVENT_TYPE_BALL_OUT :: int where "EVENT_TYPE_BALL_OUT = 5"
definition EVENT_TYPE_CORNER_AWARDED :: int where "EVENT_TYPE_CORNER_AWARDED = 6"
definition EVENT_TYPE_FOUL_COMMITTED :: int where "EVENT_TYPE_FOUL_COMMITTED = 4"
definition EVENT_TYPE_CARD :: int where "EVENT_TYPE_CARD = 17"
definition EVENT_TYPE_RECOVERY :: int where "EVENT_TYPE_RECOVERY = 49"
definition EVENT_TYPE_FORMATION_CHANGE :: int where "EVENT_TYPE_FORMATION_CHANGE = 40"

definition BALL_OUT_EVENTS :: "int list" where
  "BALL_OUT_EVENTS = [EVENT_TYPE_BALL_OUT, EVENT_TYPE_CORNER_AWARDED]"

definition BALL_OWNING_EVENTS :: "int list" where
  "BALL_OWNING_EVENTS =
     [EVENT_TYPE_PASS, EVENT_TYPE_OFFSIDE_PASS, EVENT_TYPE_TAKE_ON, EVENT_TYPE_SHOT_MISS,
      EVENT_TYPE_SHOT_POST, EVENT_TYPE_SHOT_SAVED, EVENT_TYPE_SHOT_GOAL, EVENT_TYPE_RECOVERY]"

definition EVENT_QUALIFIER_GOAL_KICK :: int where "EVENT_QUALIFIER_GOAL_KICK = 124"
definition EVENT_QUALIFIER_FREE_KICK :: int where "EVENT_QUALIFIER_FREE_KICK = 5"
definition EVENT_QUALIFIER_THROW_IN :: int where "EVENT_QUALIFIER_THROW_IN = 107"
definition EVENT_QUALIFIER_CORNER_KICK :: int where "EVENT_QUALIFIER_CORNER_KICK = 6"
definition EVENT_QUALIFIER_PENALTY :: int where "EVENT_QUALIFIER_PENALTY = 9"
definition EVENT_QUALIFIER_KICK_OFF :: int where "EVENT_QUALIFIER_KICK_OFF = 279"
definition EVENT_QUALIFIER_FREE_KICK_SHOT :: int where "EVENT_QUALIFIER_FREE_KICK_SHOT = 26"

definition EVENT_QUALIFIER_HEAD_PASS :: int where "EVENT_QUALIFIER_HEAD_PASS = 3"
definition EVENT_QUALIFIER_HEAD :: int where "EVENT_QUALIFIER_HEAD = 15"
definition EVENT_QUALIFIER_LEFT_FOOT :: int where "EVENT_QUALIFIER_LEFT_FOOT = 72"
definition EVENT_QUALIFIER_RIGHT_FOOT :: int where "EVENT_QUALIFIER_RIGHT_FOOT = 20"
definition EVENT_QUALIFIER_OTHER_BODYPART :: int where "EVENT_QUALIFIER_OTHER_BODYPART = 21"

definition EVENT_QUALIFIER_LONG_BALL :: int where "EVENT_QUALIFIER_LONG_BALL = 1"
definition EVENT_QUALIFIER_CROSS :: int where "EVENT_QUALIFIER_CROSS = 2"
definition EVENT_QUALIFIER_THROUGH_BALL :: int where "EVENT_QUALIFIER_THROUGH_BALL = 4"
definition EVENT_QUALIFIER_CHIPPED_BALL :: int where "EVENT_QUALIFIER_CHIPPED_BALL = 155"
definition EVENT_QUALIFIER_LAUNCH :: int where "EVENT_QUALIFIER_LAUNCH = 157"
definition EVENT_QUALIFIER_FLICK_ON :: int where "EVENT_QUALIFIER_FLICK_ON = 168"
definition EVENT_QUALIFIER_SWITCH_OF_PLAY :: int where "EVENT_QUALIFIER_SWITCH_OF_PLAY = 196"
definition EVENT_QUALIFIER_ASSIST :: int where "EVENT_QUALIFIER_ASSIST = 210"
definition EVENT_QUALIFIER_ASSIST_2ND :: int where "EVENT_QUALIFIER_ASSIST_2ND = 218"

definition EVENT_QUALIFIER_FIRST_YELLOW_CARD :: int where "EVENT_QUALIFIER_FIRST_YELLOW_CARD = 31"
definition EVENT_QUALIFIER_SECOND_YELLOW_CARD :: int where "EVENT_QUALIFIER_SECOND_YELLOW_CARD = 32"
definition EVENT_QUALIFIER_RED_CARD :: int where "EVENT_QUALIFIER_RED_CARD = 33"

definition EVENT_QUALIFIER_TEAM_FORMATION :: int where "EVENT_QUALIFIER_TEAM_FORMATION = 130"

section \<open>Stats Perform: the raw qualifier mapping and the four qualifier chains\<close>

text \<open>
  \<open>raw_qualifiers\<close> is the dict built by the comprehension over
  \<open>event_data["qualifier"]\<close>: the key is \<open>int(qualifierId)\<close>, the value the element's
  \<open>"value"\<close> or None when the element has no such key. A later element with the
  same key replaces an earlier one.
\<close>

type_synonym raw_qualifiers = "int \<rightharpoonup> string option"

definition raw_qualifiers_of :: "(int \<times> string option) list \<Rightarrow> raw_qualifiers" where
  "raw_qualifiers_of qs = fold (\<lambda>(k, v) m. m(k \<mapsto> v)) qs Map.empty"

text \<open>\<open>k in raw_qualifiers\<close>: the key is present, whatever its value.\<close>

definition has :: "int \<Rightarrow> raw_qualifiers \<Rightarrow> bool" where
  "has k rq = (case rq k of None \<Rightarrow> False | Some v \<Rightarrow> True)"

definition get_event_pass_qualifiers :: "raw_qualifiers \<Rightarrow> qualifier list" where
  "get_event_pass_qualifiers rq =
     (if has EVENT_QUALIFIER_CROSS rq then [PassQualifier CROSS]
      else if has EVENT_QUALIFIER_LONG_BALL rq then [PassQualifier LONG_BALL]
      else if has EVENT_QUALIFIER_CHIPPED_BALL rq then [PassQualifier CHIPPED_PASS]
      else if has EVENT_QUALIFIER_THROUGH_BALL rq then [PassQualifier THROUGH_BALL]
      else if has EVENT_QUALIFIER_LAUNCH rq then [PassQualifier LAUNCH]
      else if has EVENT_QUALIFIER_FLICK_ON rq then [PassQualifier FLICK_ON]
      else if has EVENT_QUALIFIER_ASSIST rq then [PassQualifier ASSIST]
      else if has EVENT_QUALIFIER_ASSIST_2ND rq then [PassQualifier ASSIST_2ND]
      else [])"

definition get_event_setpiece_qualifiers :: "raw_qualifiers \<Rightarrow> qualifier list" where
  "get_event_setpiece_qualifiers rq =
     (if has EVENT_QUALIFIER_CORNER_KICK rq then [SetPieceQualifier CORNER_KICK]
      else if has EVENT_QUALIFIER_FREE_KICK rq \<or> has EVENT_QUALIFIER_FREE_KICK_SHOT rq
        then [SetPieceQualifier FREE_KICK]
      else if has EVENT_QUALIFIER_PENALTY rq then [SetPieceQualifier PENALTY]
      else if has EVENT_QUALIFIER_THROW_IN rq then [SetPieceQualifier THROW_IN]
      else if has EVENT_QUALIFIER_KICK_OFF rq then [SetPieceQualifier KICK_OFF]
      else if has EVENT_QUALIFIER_GOAL_KICK rq then [SetPieceQualifier GOAL_KICK]
      else [])"

definition get_event_bodypart_qualifiers :: "raw_qualifiers \<Rightarrow> qualifier list" where
  "get_event_bodypart_qualifiers rq =
     (if has EVENT_QUALIFIER_HEAD_PASS rq then [BodyPartQualifier HEAD]
      else if has EVENT_QUALIFIER_HEAD rq then [BodyPartQualifier HEAD]
      else if has EVENT_QUALIFIER_LEFT_FOOT rq then [BodyPartQualifier LEFT_FOOT]
      else if has EVENT_QUALIFIER_RIGHT_FOOT rq then [BodyPartQualifier RIGHT_FOOT]
      else if has EVENT_QUALIFIER_OTHER_BODYPART rq then [BodyPartQualifier OTHER]
      else [])"

definition get_event_card_qualifiers :: "raw_qualifiers \<Rightarrow> qualifier list" where
  "get_event_card_qualifiers rq =
     (if has EVENT_QUALIFIER_RED_CARD rq then [CardQualifier RED]
      else if has EVENT_QUALIFIER_FIRST_YELLOW_CARD rq then [CardQualifier FIRST_YELLOW]
      else if has EVENT_QUALIFIER_SECOND_YELLOW_CARD rq then [CardQualifier SECOND_YELLOW]
      else [])"

definition get_event_qualifiers :: "raw_qualifiers \<Rightarrow> qualifier list" where
  "get_event_qualifiers rq =
     get_event_setpiece_qualifiers rq @ get_event_bodypart_qualifiers rq
       @ get_event_pass_qualifiers rq @ get_event_card_qualifiers rq"

section \<open>Stats Perform: tables\<close>

definition event_type_names :: "(int \<times> string) list" where
  "event_type_names =
   [
    (1, ''pass''), (2, ''offside pass''), (3, ''take on''), (4, ''foul''), (5, ''out''),
     (6, ''corner awarded''), (7, ''tackle''), (8, ''interception''), (9, ''turnover''),
     (10, ''save''), (11, ''claim''), (12, ''clearance''), (13, ''miss''), (14, ''post''),
     (15, ''attempt saved''), (16, ''goal''), (17, ''card''), (18, ''player off''),
     (19, ''player on''), (20, ''player retired''), (21, ''player returns''),
     (22, ''player becomes goalkeeper''), (23, ''goalkeeper becomes player''),
     (24, ''condition change''), (25, ''official change''), (26, ''unknown26''),
     (27, ''start delay''), (28, ''end delay''), (29, ''unknown29''), (30, ''end''),
     (31, ''unknown31''), (32, ''start''), (33, ''unknown33''), (34, ''team set up''),
     (35, ''player changed position''), (36, ''player changed jersey number''),
     (37, ''collection end''), (38, ''temp_goal''), (39, ''temp_attempt''),
     (40, ''formation change''), (41, ''punch''), (42, ''good skill''),
     (43, ''deleted event''), (44, ''aerial''), (45, ''challenge''), (46, ''unknown46''),
     (47, ''rescinded card''), (48, ''unknown46''), (49, ''ball recovery''),
     (50, ''dispossessed''), (51, ''error''), (52, ''keeper pick-up''),
     (53, ''cross not claimed''), (54, ''smother''), (55, ''offside provoked''),
     (56, ''shield ball opp''), (57, ''foul throw in''), (58, ''penalty faced''),
     (59, ''keeper sweeper''), (60, ''chance missed''), (61, ''ball touch''),
     (62, ''unknown62''), (63, ''temp_save''), (64, ''resume''),
     (65, ''contentious referee decision''), (66, ''possession data''), (67, ''50/50''),
     (68, ''referee drop ball''), (69, ''failed to block''),
     (70, ''injury time announcement''), (71, ''coach setup''), (72, ''caught offside''),
     (73, ''other ball contact''), (74, ''blocked pass''), (75, ''delayed start''),
     (76, ''early end''), (77, ''player off pitch'')
   ]"

definition formations_num :: "(int \<times> formation_type) list" where
  "formations_num =
   [
    (2, FOUR_FOUR_TWO), (3, FOUR_ONE_TWO_ONE_TWO), (4, FOUR_THREE_THREE),
     (5, FOUR_FIVE_ONE), (6, FOUR_FOUR_ONE_ONE), (7, FOUR_ONE_FOUR_ONE),
     (8, FOUR_TWO_THREE_ONE), (9, FOUR_THREE_TWO_ONE), (10, FIVE_THREE_TWO),
     (11, FIVE_FOUR_ONE), (12, THREE_FIVE_TWO), (13, THREE_FOUR_THREE),
     (14, THREE_ONE_THREE_ONE_TWO), (15, FOUR_TWO_TWO_TWO), (16, THREE_FIVE_ONE_ONE),
     (17, THREE_FOUR_TWO_ONE), (18, THREE_FOUR_ONE_TWO), (19, THREE_ONE_FOUR_TWO),
     (20, THREE_ONE_TWO_ONE_THREE), (21, FOUR_ONE_THREE_TWO), (22, FOUR_TWO_FOUR_ZERO),
     (23, FOUR_THREE_ONE_TWO), (24, THREE_TWO_FOUR_ONE), (25, THREE_THREE_THREE_ONE)
   ]"

definition get_event_type_name :: "int \<Rightarrow> string" where
  "get_event_type_name type_id =
     (case map_of event_type_names type_id of Some n \<Rightarrow> n | None \<Rightarrow> ''unknown'')"

section \<open>Canonical events and the collaborators of a deserializer\<close>

text \<open>
  The event factory is an external collaborator with one \<open>build_*\<close> operation per
  event kind. A built event is the record of the keyword arguments the deserializer
  passes, tagged with the operation it called; an argument the call does not pass is
  None. The field \<open>period\<close> is the reference to the period object the event was
  built with: its position in the deserializer's list of periods. \<open>timestamp\<close> is
  the timedelta relative to the period's start.
\<close>

datatype event_kind =
  PASS | TAKE_ON | SHOT | RECOVERY | FOUL_COMMITTED | BALL_OUT | FORMATION_CHANGE | CARD | GENERIC

datatype event_result =
  PassResult pass_result | TakeOnResult take_on_result | ShotResult shot_result

record 'r event =
  kind :: event_kind
  period :: nat
  timestamp :: int
  ball_owning_team :: "team option"
  ball_state :: ball_state
  event_id :: string
  team :: "team option"
  player :: "player option"
  coordinates :: "point option"
  raw_event :: 'r
  result :: "event_result option"
  qualifiers :: "qualifier list option"
  receiver_coordinates :: "point option"
  card_type :: "card_type option"
  formation_type :: "formation_type option"
  event_name :: "string option"

text \<open>
  What a deserializer takes from outside the repository's sources: the standard
  library's parsers (\<open>datetime.strptime\<close> with a format, \<open>datetime.fromisoformat\<close>,
  \<open>float\<close> and \<open>int\<close> of a string; None is their ValueError), the domain's
  \<open>Team.get_player_by_id\<close>, the inclusion predicate \<open>should_include_event\<close> and
  the transformer's \<open>transform_event\<close>.
\<close>

record 'r env =
  strptime :: "string \<Rightarrow> string \<Rightarrow> int option"
  fromisoformat :: "string \<Rightarrow> int option"
  py_float :: "string \<Rightarrow> real option"
  py_int :: "string \<Rightarrow> int option"
  get_player_by_id :: "team \<Rightarrow> string \<Rightarrow> player option"
  should_include_event :: "'r event \<Rightarrow> bool"
  transform_event :: "'r event \<Rightarrow> 'r event"

record 'r state =
  periods :: "period list"
  possession_team :: "team option"
  events :: "'r event list"

record 'r event_dataset =
  metadata_periods :: "period list"
  records :: "'r event list"

section \<open>Stats Perform: the builders\<close>

definition try_parsing_date :: "'r env \<Rightarrow> string \<Rightarrow> error + int" where
  "try_parsing_date env dt_str =
     (case strptime env dt_str ''%Y-%m-%dT%H:%M:%SZ'' of
        Some t \<Rightarrow> Inr t
      | None \<Rightarrow>
          (case strptime env dt_str ''%Y-%m-%dT%H:%M:%S.%fZ'' of
             Some t \<Rightarrow> Inr t
           | None \<Rightarrow> Inl ValueError))"

text \<open>\<open>raw_qualifiers[k]\<close>: KeyError when the key is absent.\<close>

definition getitem :: "raw_qualifiers \<Rightarrow> int \<Rightarrow> error + string option" where
  "getitem rq k = (case rq k of None \<Rightarrow> Inl (KeyError (IntKey k)) | Some v \<Rightarrow> Inr v)"

text \<open>\<open>float(v)\<close> and \<open>int(v)\<close> of a qualifier value: TypeError on None, ValueError on a
  string that is no number. \<open>py_float\<close> gives the value of a finite float.\<close>

definition float_of :: "'r env \<Rightarrow> string option \<Rightarrow> error + real" where
  "float_of env v =
     (case v of
        None \<Rightarrow> Inl TypeError
      | Some s \<Rightarrow> (case py_float env s of None \<Rightarrow> Inl ValueError | Some r \<Rightarrow> Inr r))"

definition int_of :: "'r env \<Rightarrow> string option \<Rightarrow> error + int" where
  "int_of env v =
     (case v of
        None \<Rightarrow> Inl TypeError
      | Some s \<Rightarrow> (case py_int env s of None \<Rightarrow> Inl ValueError | Some n \<Rightarrow> Inr n))"

text \<open>
  The expression \<open>Point(x=float(raw_qualifiers[140]), y=float(raw_qualifiers[141]))\<close>,
  evaluated left to right.
\<close>

definition receiver_point :: "'r env \<Rightarrow> raw_qualifiers \<Rightarrow> error + point" where
  "receiver_point env rq =
     bind_err (getitem rq 140) (\<lambda>v.
     bind_err (float_of env v) (\<lambda>a.
     bind_err (getitem rq 141) (\<lambda>w.
     bind_err (float_of env w) (\<lambda>b.
     Inr (Point a b)))))"

text \<open>The builders return the dict of keyword arguments, here a tuple in the dict's order.\<close>

definition parse_pass ::
  "'r env \<Rightarrow> raw_qualifiers \<Rightarrow> int \<Rightarrow> error + (pass_result \<times> point \<times> qualifier list)" where
  "parse_pass env rq outcome =
     (if outcome \<noteq> 0 then
        bind_err (receiver_point env rq) (\<lambda>receiver_coordinates.
        Inr (PassResult_COMPLETE, receiver_coordinates, get_event_qualifiers rq))
      else
        bind_err (receiver_point env rq) (\<lambda>receiver_coordinates.
        Inr (PassResult_INCOMPLETE, receiver_coordinates, get_event_qualifiers rq)))"

definition parse_offside_pass ::
  "'r env \<Rightarrow> raw_qualifiers \<Rightarrow> error + (pass_result \<times> point \<times> qualifier list)" where
  "parse_offside_pass env rq =
     (let qualifiers = get_event_qualifiers rq in
      bind_err (receiver_point env rq) (\<lambda>receiver_coordinates.
      Inr (PassResult_OFFSIDE, receiver_coordinates, qualifiers)))"

definition parse_take_on :: "int \<Rightarrow> take_on_result" where
  "parse_take_on outcome =
     (if outcome \<noteq> 0 then TakeOnResult_COMPLETE else TakeOnResult_INCOMPLETE)"

text \<open>
  \<open>_parse_card\<close> tests the raw codes against \<open>qualifiers\<close>, the list of canonical
  qualifiers it has just built, not against \<open>raw_qualifiers\<close>. Python's \<open>in\<close> on a
  list compares the code with each element by \<open>==\<close>.
\<close>

text \<open>
  Modelled from the spec: the Qualifier classes of kloppy.domain are not among the
  sources. The spec gives a qualifier as a tagged value of one of the four categories
  (set-piece type, body part, pass sub-type, card severity), so an integer code and a
  qualifier are values of different classes and never compare equal.
\<close>

definition code_eq_qualifier :: "int \<Rightarrow> qualifier \<Rightarrow> bool" where
  "code_eq_qualifier c q = False"

definition code_in_qualifiers :: "int \<Rightarrow> qualifier list \<Rightarrow> bool" where
  "code_in_qualifiers c qs = list_ex (code_eq_qualifier c) qs"

definition parse_card :: "raw_qualifiers \<Rightarrow> qualifier list \<times> card_type option" where
  "parse_card rq =
     (let qualifiers = get_event_qualifiers rq in
      (qualifiers,
       if code_in_qualifiers EVENT_QUALIFIER_RED_CARD qualifiers then Some RED
       else if code_in_qualifiers EVENT_QUALIFIER_FIRST_YELLOW_CARD qualifiers
         then Some FIRST_YELLOW
       else if code_in_qualifiers EVENT_QUALIFIER_SECOND_YELLOW_CARD qualifiers
         then Some SECOND_YELLOW
       else None))"

definition parse_formation_change :: "'r env \<Rightarrow> raw_qualifiers \<Rightarrow> error + formation_type" where
  "parse_formation_change env rq =
     bind_err (getitem rq EVENT_QUALIFIER_TEAM_FORMATION) (\<lambda>v.
     bind_err (int_of env v) (\<lambda>formation_id.
     (case map_of formations_num formation_id of
        None \<Rightarrow> Inl (KeyError (IntKey formation_id))
      | Some formation \<Rightarrow> Inr formation)))"

definition parse_shot ::
  "raw_qualifiers \<Rightarrow> int \<Rightarrow> point \<Rightarrow> point \<times> shot_result option \<times> qualifier list" where
  "parse_shot rq type_id c =
     (if type_id = EVENT_TYPE_SHOT_GOAL then
        (if has 28 rq then
           (Point (float_sub 100 (x_of c)) (float_sub 100 (y_of c)), Some OWN_GOAL,
            get_event_qualifiers rq)
         else (c, Some GOAL, get_event_qualifiers rq))
      else (c, None, get_event_qualifiers rq))"

section \<open>Stats Perform: the deserializer\<close>

text \<open>
  One record of the events document \<open>eventdata["liveData"]["event"]\<close>, with the keys
  the loop reads. \<open>playerId\<close> is optional in the source. The key \<open>team_id\<close> is read
  only by the message of the unknown-team error; the feed's own team key is
  \<open>contestantId\<close>.
\<close>

record raw_event =
  id_of :: string
  typeId :: int
  timeStamp :: string
  periodId :: int
  contestantId :: string
  ev_team_id :: "string option"
  ev_x :: real
  ev_y :: real
  outcome :: int
  qualifier :: "(int \<times> string option) list"
  playerId :: "string option"

record metadata_period =
  per_id :: int
  per_start :: string
  per_end :: string

text \<open>
  \<open>for period in periods: if period.id == period_id: break\<close>, with the loop's
  \<open>else\<close> as None: the position of the first period with that identifier.
\<close>

fun find_period :: "period list \<Rightarrow> int \<Rightarrow> nat option" where
  "find_period [] pid = None"
| "find_period (p # ps) pid =
     (if period_id p = pid then Some 0 else map_option Suc (find_period ps pid))"

definition generic_event_kwargs ::
  "nat \<Rightarrow> int \<Rightarrow> team option \<Rightarrow> raw_event \<Rightarrow> team \<Rightarrow> player option \<Rightarrow> raw_event event" where
  "generic_event_kwargs i rel poss ev tm pl =
     \<lparr>kind = GENERIC, period = i, timestamp = rel, ball_owning_team = poss,
      ball_state = ALIVE, event_id = id_of ev, team = Some tm, player = pl,
      coordinates = Some (Point (ev_x ev) (ev_y ev)), raw_event = ev,
      result = None, qualifiers = None, receiver_coordinates = None, card_type = None,
      formation_type = None, event_name = None\<rparr>"

text \<open>
  \<open>raw_qualifiers.get(374).replace(" ", "T") + "Z"\<close>, parsed as a date: the goal's
  corrected absolute timestamp.
\<close>

definition replace_space_T :: "string \<Rightarrow> string" where
  "replace_space_T s = map (\<lambda>c. if c = CHR '' '' then CHR ''T'' else c) s"

definition corrected_timestamp :: "'r env \<Rightarrow> raw_qualifiers \<Rightarrow> error + int" where
  "corrected_timestamp env rq =
     (case rq 374 of
        None \<Rightarrow> Inl AttributeError
      | Some None \<Rightarrow> Inl AttributeError
      | Some (Some s) \<Rightarrow> try_parsing_date env (replace_space_T s @ ''Z''))"

text \<open>
  The dispatch on the type code, from \<open>generic_event_kwargs = dict(...)\<close> to the
  \<open>build_*\<close> call: \<open>i\<close> is the period found, \<open>start\<close> its start timestamp,
  \<open>ts\<close> the record's parsed timestamp, \<open>poss\<close> the possession team after this
  record's update, \<open>tm\<close> the acting team.
\<close>

definition build_event ::
  "raw_event env \<Rightarrow> nat \<Rightarrow> int \<Rightarrow> int \<Rightarrow> team option \<Rightarrow> team \<Rightarrow> raw_event
     \<Rightarrow> error + raw_event event" where
  "build_event env i start ts poss tm ev =
     (let type_id = typeId ev;
          rq = raw_qualifiers_of (qualifier ev);
          pl = (case playerId ev of None \<Rightarrow> None | Some pid \<Rightarrow> get_player_by_id env tm pid);
          g = generic_event_kwargs i (ts - start) poss ev tm pl
      in
      if type_id = EVENT_TYPE_PASS then
        bind_err (parse_pass env rq (outcome ev)) (\<lambda>(r, rc, qs).
        Inr (g\<lparr>kind := PASS, result := Some (PassResult r),
                receiver_coordinates := Some rc, qualifiers := Some qs\<rparr>))
      else if type_id = EVENT_TYPE_OFFSIDE_PASS then
        bind_err (parse_offside_pass env rq) (\<lambda>(r, rc, qs).
        Inr (g\<lparr>kind := PASS, result := Some (PassResult r),
                receiver_coordinates := Some rc, qualifiers := Some qs\<rparr>))
      else if type_id = EVENT_TYPE_TAKE_ON then
        Inr (g\<lparr>kind := TAKE_ON, result := Some (TakeOnResult (parse_take_on (outcome ev))),
                qualifiers := None\<rparr>)
      else if type_id \<in> set [EVENT_TYPE_SHOT_MISS, EVENT_TYPE_SHOT_POST,
                               EVENT_TYPE_SHOT_SAVED, EVENT_TYPE_SHOT_GOAL] then
        bind_err
          (if type_id = EVENT_TYPE_SHOT_GOAL \<and> has 374 rq then
             bind_err (corrected_timestamp env rq) (\<lambda>c. Inr (g\<lparr>timestamp := c - start\<rparr>))
           else Inr g)
          (\<lambda>g'.
             (case parse_shot rq type_id (Point (ev_x ev) (ev_y ev)) of
                (c, r, qs) \<Rightarrow>
                  Inr (g'\<lparr>kind := SHOT, coordinates := Some c,
                           result := map_option ShotResult r, qualifiers := Some qs\<rparr>)))
      else if type_id = EVENT_TYPE_RECOVERY then
        Inr (g\<lparr>kind := RECOVERY, result := None, qualifiers := None\<rparr>)
      else if type_id = EVENT_TYPE_FOUL_COMMITTED then
        Inr (g\<lparr>kind := FOUL_COMMITTED, result := None, qualifiers := None\<rparr>)
      else if type_id \<in> set BALL_OUT_EVENTS then
        Inr (g\<lparr>kind := BALL_OUT, ball_state := DEAD, result := None, qualifiers := None\<rparr>)
      else if type_id = EVENT_TYPE_FORMATION_CHANGE then
        bind_err (parse_formation_change env rq) (\<lambda>formation.
        Inr (g\<lparr>kind := FORMATION_CHANGE, result := None, qualifiers := None,
                formation_type := Some formation\<rparr>))
      else if type_id = EVENT_TYPE_CARD then
        (case parse_card rq of
           (qs, ct) \<Rightarrow>
             Inr (g\<lparr>kind := CARD, ball_state := DEAD, result := None,
                     qualifiers := Some qs, card_type := ct\<rparr>))
      else
        Inr (g\<lparr>kind := GENERIC, result := None, qualifiers := None,
                event_name := Some (get_event_type_name type_id)\<rparr>))"

text \<open>
  The acting team of a record that is no period marker and whose period has started.
  The message of the error is the f-string \<open>f"Unknown team_id {event_data['team_id']}"\<close>,
  which looks the key \<open>team_id\<close> up in the record before the exception is built.
\<close>

definition acting_team :: "team \<Rightarrow> team \<Rightarrow> raw_event \<Rightarrow> error + team" where
  "acting_team home_team away_team ev =
     (if contestantId ev = team_id home_team then Inr home_team
      else if contestantId ev = team_id away_team then Inr away_team
      else
        (case ev_team_id ev of
           None \<Rightarrow> Inl (KeyError (StrKey ''team_id''))
         | Some t \<Rightarrow> Inl (DeserializationError (''Unknown team_id '' @ t))))"

text \<open>The body of the loop over the event records: one record, one step of the state.\<close>

definition process_event ::
  "raw_event env \<Rightarrow> team \<Rightarrow> team \<Rightarrow> raw_event state \<Rightarrow> raw_event
     \<Rightarrow> error + raw_event state" where
  "process_event env home_team away_team st ev =
     bind_err (try_parsing_date env (timeStamp ev)) (\<lambda>ts.
     (case find_period (periods st) (periodId ev) of
        None \<Rightarrow> Inr st
      | Some i \<Rightarrow>
          if typeId ev = EVENT_TYPE_START_PERIOD then
            Inr (st\<lparr>periods := (periods st)[i := (periods st ! i)\<lparr>start_timestamp := Some ts\<rparr>]\<rparr>)
          else if typeId ev = EVENT_TYPE_END_PERIOD then
            Inr (st\<lparr>periods := (periods st)[i := (periods st ! i)\<lparr>end_timestamp := Some ts\<rparr>]\<rparr>)
          else
            (case start_timestamp (periods st ! i) of
               None \<Rightarrow> Inr st
             | Some start \<Rightarrow>
                 bind_err (acting_team home_team away_team ev) (\<lambda>tm.
                 let poss = (if typeId ev \<in> set BALL_OWNING_EVENTS then Some tm
                             else possession_team st)
                 in
                 bind_err (build_event env i start ts poss tm ev) (\<lambda>e.
                 Inr (st\<lparr>possession_team := poss,
                         events := (if should_include_event env e
                                    then events st @ [transform_event env e]
                                    else events st)\<rparr>))))))"

fun deserialize_events ::
  "raw_event env \<Rightarrow> team \<Rightarrow> team \<Rightarrow> raw_event state \<Rightarrow> raw_event list
     \<Rightarrow> error + raw_event state" where
  "deserialize_events env home_team away_team st [] = Inr st"
| "deserialize_events env home_team away_team st (ev # rest) =
     bind_err (process_event env home_team away_team st ev) (\<lambda>st'.
     deserialize_events env home_team away_team st' rest)"

fun parse_periods :: "'r env \<Rightarrow> metadata_period list \<Rightarrow> error + period list" where
  "parse_periods env [] = Inr []"
| "parse_periods env (per # rest) =
     bind_err (try_parsing_date env (per_start per)) (\<lambda>s.
     bind_err (try_parsing_date env (per_end per)) (\<lambda>e.
     bind_err (parse_periods env rest) (\<lambda>ps.
     Inr (\<lparr>period_id = per_id per, start_timestamp = Some s, end_timestamp = Some e\<rparr> # ps))))"

text \<open>
  \<open>StatsPerformDeserializer.deserialize\<close> from the line-up check on: the two teams
  are what \<open>_parse_team\<close> returned, \<open>meta_periods\<close> is
  \<open>metadata["liveData"]["matchDetails"]["period"]\<close>, \<open>event_list\<close> is
  \<open>eventdata["liveData"]["event"]\<close>.
\<close>

definition deserialize ::
  "raw_event env \<Rightarrow> team \<Rightarrow> team \<Rightarrow> metadata_period list \<Rightarrow> raw_event list
     \<Rightarrow> error + raw_event event_dataset" where
  "deserialize env home_team away_team meta_periods event_list =
     (if length (players home_team) = 0 \<or> length (players away_team) = 0 then
        Inl (DeserializationError ''LineUp incomplete'')
      else
        bind_err (parse_periods env meta_periods) (\<lambda>ps.
        bind_err
          (deserialize_events env home_team away_team
             \<lparr>periods = ps, possession_team = None, events = []\<rparr> event_list)
          (\<lambda>st. Inr \<lparr>metadata_periods = periods st, records = events st\<rparr>)))"

section \<open>UEFA: the deserializer\<close>

definition UEFA_EVENT_TYPE_START_PERIOD :: string where
  "UEFA_EVENT_TYPE_START_PERIOD = ''START_PHASE''"

definition UEFA_EVENT_TYPE_END_PERIOD :: string where
  "UEFA_EVENT_TYPE_END_PERIOD = ''END_PHASE''"

definition EVENT_TYPE_SHOT_WIDE :: string where
  "EVENT_TYPE_SHOT_WIDE = ''SHOT_WIDE''"

definition PHASE_TO_PERIOD :: "(string \<times> int) list" where
  "PHASE_TO_PERIOD = [(''FIRST_HALF'', 1), (''SECOND_HALF'', 2)]"

definition UEFA_BALL_OWNING_EVENTS :: "string list" where
  "UEFA_BALL_OWNING_EVENTS = [EVENT_TYPE_SHOT_WIDE]"

text \<open>
  One element of the UEFA events document. \<open>timestamp\<close>, \<open>primaryActor\<close>, its
  \<open>team\<close> and \<open>person\<close>, and \<open>fieldPosition\<close> are optional keys in the source.
\<close>

record uefa_actor =
  actor_team_id :: "string option"
  actor_person_id :: "string option"

record uefa_raw_event =
  uefa_id :: string
  phase :: string
  type_of :: string
  uefa_timestamp :: "string option"
  primaryActor :: "uefa_actor option"
  fieldPosition :: "point option"

text \<open>
  The UEFA loop carries the periods and the events only: \<open>possession_team\<close> is
  assigned None inside the loop body, for every record.
\<close>

record uefa_state =
  uefa_periods :: "period list"
  uefa_events :: "uefa_raw_event event list"

text \<open>\<open>xs[i]\<close> on a Python list, as the position read: a negative index counts from
  the end, an index outside the list raises IndexError.\<close>

definition py_index :: "'a list \<Rightarrow> int \<Rightarrow> error + nat" where
  "py_index xs i =
     (if 0 \<le> i \<and> i < int (length xs) then Inr (nat i)
      else if i < 0 \<and> - int (length xs) \<le> i then Inr (nat (int (length xs) + i))
      else Inl IndexError)"

text \<open>\<open>periods[PHASE_TO_PERIOD[phase] - 1]\<close>: KeyError on an unknown phase, then
  IndexError when the list is too short.\<close>

definition phase_period :: "period list \<Rightarrow> string \<Rightarrow> error + nat" where
  "phase_period ps ph =
     (case map_of PHASE_TO_PERIOD ph of
        None \<Rightarrow> Inl (KeyError (StrKey ph))
      | Some n \<Rightarrow> py_index ps (n - 1))"

text \<open>The acting team and player of a UEFA record; both stay None without an actor's team.\<close>

definition uefa_actor_of ::
  "'r env \<Rightarrow> team \<Rightarrow> team \<Rightarrow> uefa_raw_event
     \<Rightarrow> error + (team option \<times> player option)" where
  "uefa_actor_of env home_team away_team ev =
     (case primaryActor ev of
        None \<Rightarrow> Inr (None, None)
      | Some a \<Rightarrow>
          (case actor_team_id a of
             None \<Rightarrow> Inr (None, None)
           | Some tid \<Rightarrow>
               bind_err
                 (if tid = team_id home_team then Inr home_team
                  else if tid = team_id away_team then Inr away_team
                  else Inl (DeserializationError (''Unknown team_id '' @ tid)))
                 (\<lambda>tm.
                    Inr (Some tm,
                         (case actor_person_id a of
                            None \<Rightarrow> None
                          | Some pid \<Rightarrow> get_player_by_id env tm pid)))))"

definition uefa_build_event ::
  "nat \<Rightarrow> int \<Rightarrow> team option \<Rightarrow> player option \<Rightarrow> uefa_raw_event \<Rightarrow> uefa_raw_event event" where
  "uefa_build_event i rel tm pl ev =
     (let possession = (if type_of ev \<in> set UEFA_BALL_OWNING_EVENTS then tm else None);
          g = \<lparr>kind = GENERIC, period = i, timestamp = rel, ball_owning_team = possession,
               ball_state = ALIVE, event_id = uefa_id ev, team = tm, player = pl,
               coordinates = fieldPosition ev, raw_event = ev,
               result = None, qualifiers = None, receiver_coordinates = None,
               card_type = None, formation_type = None, event_name = None\<rparr>
      in
      if type_of ev \<in> set [EVENT_TYPE_SHOT_WIDE] then
        g\<lparr>kind := SHOT, result := Some (ShotResult OFF_TARGET), qualifiers := None\<rparr>
      else
        g\<lparr>kind := GENERIC, result := None, qualifiers := None,
          event_name := Some (type_of ev)\<rparr>)"

definition uefa_process_event ::
  "uefa_raw_event env \<Rightarrow> team \<Rightarrow> team \<Rightarrow> uefa_state \<Rightarrow> uefa_raw_event
     \<Rightarrow> error + uefa_state" where
  "uefa_process_event env home_team away_team st ev =
     (case uefa_timestamp ev of
        None \<Rightarrow> Inr st
      | Some s \<Rightarrow>
          (case fromisoformat env s of
             None \<Rightarrow> Inl ValueError
           | Some ts \<Rightarrow>
               if type_of ev = UEFA_EVENT_TYPE_START_PERIOD then
                 (case map_of PHASE_TO_PERIOD (phase ev) of
                    None \<Rightarrow> Inl (KeyError (StrKey (phase ev)))
                  | Some n \<Rightarrow>
                      Inr (st\<lparr>uefa_periods := uefa_periods st @
                             [\<lparr>period_id = n, start_timestamp = Some ts,
                               end_timestamp = None\<rparr>]\<rparr>))
               else if type_of ev = UEFA_EVENT_TYPE_END_PERIOD then
                 bind_err (phase_period (uefa_periods st) (phase ev)) (\<lambda>i.
                 Inr (st\<lparr>uefa_periods := (uefa_periods st)
                        [i := (uefa_periods st ! i)\<lparr>end_timestamp := Some ts\<rparr>]\<rparr>))
               else
                 bind_err (phase_period (uefa_periods st) (phase ev)) (\<lambda>i.
                 bind_err (uefa_actor_of env home_team away_team ev) (\<lambda>(tm, pl).
                 (case start_timestamp (uefa_periods st ! i) of
                    None \<Rightarrow> Inl TypeError
                  | Some start \<Rightarrow>
                      (let e = uefa_build_event i (ts - start) tm pl ev in
                       Inr (st\<lparr>uefa_events :=
                              (if should_include_event env e
                               then uefa_events st @ [transform_event env e]
                               else uefa_events st)\<rparr>)))))))"

fun uefa_deserialize_events ::
  "uefa_raw_event env \<Rightarrow> team \<Rightarrow> team \<Rightarrow> uefa_state \<Rightarrow> uefa_raw_event list
     \<Rightarrow> error + uefa_state" where
  "uefa_deserialize_events env home_team away_team st [] = Inr st"
| "uefa_deserialize_events env home_team away_team st (ev # rest) =
     bind_err (uefa_process_event env home_team away_team st ev) (\<lambda>st'.
     uefa_deserialize_events env home_team away_team st' rest)"

text \<open>
  \<open>UefaDeserializer.deserialize\<close> from the line-up check on; the loop runs over
  \<open>event_data[::-1]\<close>, the document reversed.
\<close>

definition uefa_deserialize ::
  "uefa_raw_event env \<Rightarrow> team \<Rightarrow> team \<Rightarrow> uefa_raw_event list
     \<Rightarrow> error + uefa_raw_event event_dataset" where
  "uefa_deserialize env home_team away_team event_data =
     (if length (players home_team) = 0 \<or> length (players away_team) = 0 then
        Inl (DeserializationError ''LineUp incomplete'')
      else
        bind_err
          (uefa_deserialize_events env home_team away_team
             \<lparr>uefa_periods = [], uefa_events = []\<rparr> (rev event_data))
          (\<lambda>st. Inr \<lparr>metadata_periods = uefa_periods st, records = uefa_events st\<rparr>))"

section \<open>The precedence chains as the specification words them\<close>

text \<open>
  The specification describes each chain as an ordered list of checks from raw codes to
  a canonical tag, of which the first whose raw code is present wins. \<open>first_match\<close>
  is that reading; the four lists give the orders the specification states, an entry
  holding the raw codes that alias to one tag. They are compared with the source's
  chains below.
\<close>

fun first_match :: "(int list \<times> 'a) list \<Rightarrow> raw_qualifiers \<Rightarrow> 'a list" where
  "first_match [] rq = []"
| "first_match ((codes, tag) # rest) rq =
     (if list_ex (\<lambda>k. has k rq) codes then [tag] else first_match rest rq)"

definition spec_setpiece_chain :: "(int list \<times> qualifier) list" where
  "spec_setpiece_chain =
     [([EVENT_QUALIFIER_CORNER_KICK], SetPieceQualifier CORNER_KICK),
      ([EVENT_QUALIFIER_FREE_KICK, EVENT_QUALIFIER_FREE_KICK_SHOT], SetPieceQualifier FREE_KICK),
      ([EVENT_QUALIFIER_PENALTY], SetPieceQualifier PENALTY),
      ([EVENT_QUALIFIER_THROW_IN], SetPieceQualifier THROW_IN),
      ([EVENT_QUALIFIER_KICK_OFF], SetPieceQualifier KICK_OFF),
      ([EVENT_QUALIFIER_GOAL_KICK], SetPieceQualifier GOAL_KICK)]"

definition spec_bodypart_chain :: "(int list \<times> qualifier) list" where
  "spec_bodypart_chain =
     [([EVENT_QUALIFIER_HEAD_PASS], BodyPartQualifier HEAD),
      ([EVENT_QUALIFIER_HEAD], BodyPartQualifier HEAD),
      ([EVENT_QUALIFIER_LEFT_FOOT], BodyPartQualifier LEFT_FOOT),
      ([EVENT_QUALIFIER_RIGHT_FOOT], BodyPartQualifier RIGHT_FOOT),
      ([EVENT_QUALIFIER_OTHER_BODYPART], BodyPartQualifier OTHER)]"

definition spec_pass_chain :: "(int list \<times> qualifier) list" where
  "spec_pass_chain =
     [([EVENT_QUALIFIER_CROSS], PassQualifier CROSS),
      ([EVENT_QUALIFIER_LONG_BALL], PassQualifier LONG_BALL),
      ([EVENT_QUALIFIER_CHIPPED_BALL], PassQualifier CHIPPED_PASS),
      ([EVENT_QUALIFIER_THROUGH_BALL], PassQualifier THROUGH_BALL),
      ([EVENT_QUALIFIER_LAUNCH], PassQualifier LAUNCH),
      ([EVENT_QUALIFIER_FLICK_ON], PassQualifier FLICK_ON),
      ([EVENT_QUALIFIER_ASSIST], PassQualifier ASSIST),
      ([EVENT_QUALIFIER_ASSIST_2ND], PassQualifier ASSIST_2ND)]"

definition spec_card_chain :: "(int list \<times> qualifier) list" where
  "spec_card_chain =
     [([EVENT_QUALIFIER_RED_CARD], CardQualifier RED),
      ([EVENT_QUALIFIER_FIRST_YELLOW_CARD], CardQualifier FIRST_YELLOW),
      ([EVENT_QUALIFIER_SECOND_YELLOW_CARD], CardQualifier SECOND_YELLOW)]"

definition chains :: "((raw_qualifiers \<Rightarrow> qualifier list) \<times> (int list \<times> qualifier) list) list" where
  "chains =
     [(get_event_setpiece_qualifiers, spec_setpiece_chain),
      (get_event_bodypart_qualifiers, spec_bodypart_chain),
      (get_event_pass_qualifiers, spec_pass_chain),
      (get_event_card_qualifiers, spec_card_chain)]"

definition present :: "raw_qualifiers \<Rightarrow> int list \<times> 'a \<Rightarrow> bool" where
  "present rq entry = list_ex (\<lambda>k. has k rq) (fst entry)"

section \<open>Example inputs\<close>

text \<open>
  Concrete collaborators and feeds on which the theorems below are instantiated. The
  example parsers agree with the standard library on the strings listed (timestamps in
  microseconds since the epoch) and reject every other string; a player is looked up as
  the first of the team with the identifier; every event is included and the transformer
  leaves it as it is.
\<close>

definition ex_strptime :: "string \<Rightarrow> string \<Rightarrow> int option" where
  "ex_strptime s fmt =
     (if fmt = ''%Y-%m-%dT%H:%M:%SZ'' then
        map_of [(''1970-01-01T00:00:00Z'', 0), (''1970-01-01T00:00:05Z'', 5000000),
                (''1970-01-01T00:00:07Z'', 7000000), (''1970-01-01T00:00:09Z'', 9000000),
                (''1970-01-01T00:01:30Z'', 90000000)] s
      else None)"

definition ex_fromisoformat :: "string \<Rightarrow> int option" where
  "ex_fromisoformat =
     map_of [(''1970-01-01T00:00:00+00:00'', 0), (''1970-01-01T00:00:05+00:00'', 5000000),
             (''1970-01-01T00:00:07+00:00'', 7000000)]"

definition ex_float :: "string \<Rightarrow> real option" where
  "ex_float = map_of [(''50'', 50), (''50.0'', 50), (''62.5'', 125 / 2)]"

definition ex_int :: "string \<Rightarrow> int option" where
  "ex_int = map_of [(''2'', 2), (''4'', 4)]"

definition ex_env :: "'r env" where
  "ex_env =
     \<lparr>strptime = ex_strptime, fromisoformat = ex_fromisoformat, py_float = ex_float,
      py_int = ex_int,
      get_player_by_id = (\<lambda>tm pid. find (\<lambda>p. player_id p = pid) (players tm)),
      should_include_event = (\<lambda>e. True), transform_event = (\<lambda>e. e)\<rparr>"

definition ex_home :: team where
  "ex_home = \<lparr>team_id = ''home'', ground_of = HOME, players = [\<lparr>player_id = ''p1''\<rparr>]\<rparr>"

definition ex_away :: team where
  "ex_away = \<lparr>team_id = ''away'', ground_of = AWAY, players = [\<lparr>player_id = ''p2''\<rparr>]\<rparr>"

definition ex_periods :: "metadata_period list" where
  "ex_periods =
     [\<lparr>per_id = 1, per_start = ''1970-01-01T00:00:00Z'', per_end = ''1970-01-01T00:01:30Z''\<rparr>]"

text \<open>A Stats Perform record of period 1 at second 5, by the home team, at (90, 10).\<close>

definition ex_event :: "int \<Rightarrow> int \<Rightarrow> (int \<times> string option) list \<Rightarrow> raw_event" where
  "ex_event type_id oc qs =
     \<lparr>id_of = ''e1'', typeId = type_id, timeStamp = ''1970-01-01T00:00:05Z'', periodId = 1,
      contestantId = ''home'', ev_team_id = None, ev_x = 90, ev_y = 10, outcome = oc,
      qualifier = qs, playerId = Some ''p1''\<rparr>"

text \<open>A UEFA record of the first half by the home team.\<close>

definition ex_uefa_event :: "string \<Rightarrow> string \<Rightarrow> string \<Rightarrow> uefa_raw_event" where
  "ex_uefa_event eid ty ts =
     \<lparr>uefa_id = eid, phase = ''FIRST_HALF'', type_of = ty, uefa_timestamp = Some ts,
      primaryActor = Some \<lparr>actor_team_id = Some ''home'', actor_person_id = None\<rparr>,
      fieldPosition = None\<rparr>"

text \<open>The loop's state after the metadata periods were read: period 1 started at 0.\<close>

definition ex_state :: "raw_event state" where
  "ex_state =
     \<lparr>periods = [\<lparr>period_id = 1, start_timestamp = Some 0, end_timestamp = Some 90000000\<rparr>],
      possession_team = None, events = []\<rparr>"

text \<open>The UEFA loop's state once the first half has started at 0.\<close>

definition ex_uefa_state :: uefa_state where
  "ex_uefa_state =
     \<lparr>uefa_periods = [\<lparr>period_id = 1, start_timestamp = Some 0, end_timestamp = None\<rparr>],
      uefa_events = []\<rparr>"

section \<open>Basic facts\<close>

lemma bind_err_simps [simp]:
  "bind_err (Inl e) f = Inl e"
  "bind_err (Inr v) f = f v"
  by (simp_all add: bind_err_def)

lemmas event_type_defs =
  EVENT_TYPE_START_PERIOD_def EVENT_TYPE_END_PERIOD_def EVENT_TYPE_PASS_def
  EVENT_TYPE_OFFSIDE_PASS_def EVENT_TYPE_TAKE_ON_def EVENT_TYPE_SHOT_MISS_def
  EVENT_TYPE_SHOT_POST_def EVENT_TYPE_SHOT_SAVED_def EVENT_TYPE_SHOT_GOAL_def
  EVENT_TYPE_BALL_OUT_def EVENT_TYPE_CORNER_AWARDED_def EVENT_TYPE_FOUL_COMMITTED_def
  EVENT_TYPE_CARD_def EVENT_TYPE_RECOVERY_def EVENT_TYPE_FORMATION_CHANGE_def
  BALL_OUT_EVENTS_def BALL_OWNING_EVENTS_def

lemmas event_qualifier_defs =
  EVENT_QUALIFIER_GOAL_KICK_def EVENT_QUALIFIER_FREE_KICK_def EVENT_QUALIFIER_THROW_IN_def
  EVENT_QUALIFIER_CORNER_KICK_def EVENT_QUALIFIER_PENALTY_def EVENT_QUALIFIER_KICK_OFF_def
  EVENT_QUALIFIER_FREE_KICK_SHOT_def EVENT_QUALIFIER_HEAD_PASS_def EVENT_QUALIFIER_HEAD_def
  EVENT_QUALIFIER_LEFT_FOOT_def EVENT_QUALIFIER_RIGHT_FOOT_def
  EVENT_QUALIFIER_OTHER_BODYPART_def EVENT_QUALIFIER_LONG_BALL_def EVENT_QUALIFIER_CROSS_def
  EVENT_QUALIFIER_THROUGH_BALL_def EVENT_QUALIFIER_CHIPPED_BALL_def EVENT_QUALIFIER_LAUNCH_def
  EVENT_QUALIFIER_FLICK_ON_def EVENT_QUALIFIER_ASSIST_def EVENT_QUALIFIER_ASSIST_2ND_def
  EVENT_QUALIFIER_FIRST_YELLOW_CARD_def EVENT_QUALIFIER_SECOND_YELLOW_CARD_def
  EVENT_QUALIFIER_RED_CARD_def EVENT_QUALIFIER_TEAM_FORMATION_def

lemmas uefa_defs =
  uefa_deserialize_def uefa_process_event_def UEFA_EVENT_TYPE_START_PERIOD_def
  UEFA_EVENT_TYPE_END_PERIOD_def PHASE_TO_PERIOD_def phase_period_def py_index_def
  uefa_actor_of_def uefa_build_event_def UEFA_BALL_OWNING_EVENTS_def EVENT_TYPE_SHOT_WIDE_def

lemmas ex_defs =
  ex_env_def ex_home_def ex_away_def ex_uefa_event_def ex_fromisoformat_def ex_strptime_def
  ex_float_def ex_int_def ex_periods_def ex_event_def

lemmas sp_defs =
  Let_def
  deserialize_def process_event_def acting_team_def build_event_def generic_event_kwargs_def
  try_parsing_date_def raw_qualifiers_of_def has_def getitem_def float_of_def int_of_def
  receiver_point_def parse_pass_def parse_offside_pass_def parse_take_on_def parse_card_def
  parse_shot_def parse_formation_change_def corrected_timestamp_def replace_space_T_def
  get_event_qualifiers_def get_event_setpiece_qualifiers_def
  get_event_bodypart_qualifiers_def get_event_pass_qualifiers_def get_event_card_qualifiers_def

lemma code_in_qualifiers_never [simp]: "code_in_qualifiers c qs = False"
  by (induction qs) (simp_all add: code_in_qualifiers_def code_eq_qualifier_def)

lemma parse_card_card_type: "snd (parse_card rq) = None"
  by (simp add: parse_card_def Let_def)


section \<open>Possession (C1)\<close>

text \<open>
  C1. The claim: the possession value starts as null, is set to the acting team exactly
  on an event of a possession-transferring type, and is attached unchanged to every
  event built afterwards until the next transferring event. The UEFA deserializer
  assigns \<open>possession_team = None\<close> inside its loop: on the feed START_PHASE,
  SHOT_WIDE by the home team, then a PASS record by the home team (given newest first, as
  the provider sends it), the shot carries the home team and the event built after it
  carries None, where the claim says the home team.
\<close>

theorem C1_uefa_possession_not_carried:
  "map_sum id (map ball_owning_team \<circ> records)
     (uefa_deserialize ex_env ex_home ex_away
        [ex_uefa_event ''3'' ''PASS'' ''1970-01-01T00:00:07+00:00'',
         ex_uefa_event ''2'' ''SHOT_WIDE'' ''1970-01-01T00:00:05+00:00'',
         ex_uefa_event ''1'' ''START_PHASE'' ''1970-01-01T00:00:00+00:00''])
   = Inr [Some ex_home, None]"
  by (simp add: uefa_defs ex_defs)

section \<open>Records outside a started period (C2)\<close>

text \<open>
  C2. The claim: a record whose phase has no tracked period yet is dropped and the
  remaining records are processed, without any error. The UEFA deserializer indexes its
  list of periods with no guard: a feed whose only record is a PASS of the first half,
  before any START_PHASE marker, makes the whole call raise IndexError.
\<close>

theorem C2_uefa_unopened_period_raises:
  "uefa_deserialize ex_env ex_home ex_away
     [ex_uefa_event ''1'' ''PASS'' ''1970-01-01T00:00:05+00:00''] = Inl IndexError"
  by (simp add: uefa_defs ex_defs)

section \<open>Unknown acting team (C3)\<close>

text \<open>
  C3. The claim: a record whose team identifier is neither the home nor the away
  identifier makes the call fail with DeserializationError and a readable message. In
  the Stats Perform deserializer the message is built from the key \<open>team_id\<close>, which
  the record does not have (its team key is \<open>contestantId\<close>): for a pass of the
  started period 1 by the unknown contestant \<open>zzz\<close> the call raises
  KeyError(\<open>team_id\<close>), not DeserializationError.
\<close>

theorem C3_unknown_team_raises_key_error:
  "deserialize ex_env ex_home ex_away ex_periods
     [(ex_event 1 1 [(140, Some ''50''), (141, Some ''50'')])\<lparr>contestantId := ''zzz''\<rparr>]
   = Inl (KeyError (StrKey ''team_id''))"
  by (simp add: sp_defs ex_defs event_type_defs)

section \<open>Card events (C4)\<close>

text \<open>
  C4. The claim: a card event has ball state DEAD and its \<open>card_type\<close> is RED when
  raw code 33 is present, else FIRST_YELLOW on 31, else SECOND_YELLOW on 32, else null.
  \<open>_parse_card\<close> looks the raw codes up in the list of built qualifiers, where no
  integer is found: for a card record with raw code 33 the built event is DEAD and has
  the qualifier CardQualifier RED, but its \<open>card_type\<close> is None.
\<close>

theorem C4_red_card_has_no_card_type:
  "map_sum id (map (\<lambda>e. (kind e, ball_state e, qualifiers e, card_type e)) \<circ> records)
     (deserialize ex_env ex_home ex_away ex_periods [ex_event 17 1 [(33, None)]])
   = Inr [(CARD, DEAD, Some [CardQualifier RED], None)]"
  by (simp add: sp_defs ex_defs event_type_defs event_qualifier_defs)

section \<open>Chain precedence (C6)\<close>

lemma first_match_length: "length (first_match ch rq) \<le> 1"
  by (induction ch rq rule: first_match.induct) simp_all

lemma first_match_precedence:
  "i < length ch \<Longrightarrow> present rq (ch ! i) \<Longrightarrow> (\<forall>j<i. \<not> present rq (ch ! j))
     \<Longrightarrow> first_match ch rq = [snd (ch ! i)]"
proof (induction ch rq arbitrary: i rule: first_match.induct)
  case (1 rq)
  then show ?case by simp
next
  case (2 codes tag rest rq)
  show ?case
  proof (cases i)
    case 0
    with "2.prems" show ?thesis by (simp add: present_def)
  next
    case (Suc n)
    from "2.prems" Suc have head: "\<not> list_ex (\<lambda>k. has k rq) codes"
      by (auto simp: present_def)
    have "first_match rest rq = [snd (rest ! n)]"
    proof (rule "2.IH"[OF head])
      show "n < length rest" using "2.prems" Suc by simp
      show "present rq (rest ! n)" using "2.prems" Suc by simp
      show "\<forall>j<n. \<not> present rq (rest ! j)"
      proof (intro allI impI)
        fix j assume "j < n"
        then have "Suc j < i" using Suc by simp
        with "2.prems"(3) have "\<not> present rq ((((codes, tag) # rest)) ! Suc j)" by blast
        then show "\<not> present rq (rest ! j)" by simp
      qed
    qed
    with head Suc show ?thesis by simp
  qed
qed

lemma first_match_none:
  "(\<forall>entry\<in>set ch. \<not> present rq entry) \<Longrightarrow> first_match ch rq = []"
  by (induction ch rq rule: first_match.induct) (auto simp: present_def)

lemma setpiece_first_match:
  "get_event_setpiece_qualifiers rq = first_match spec_setpiece_chain rq"
  by (simp add: get_event_setpiece_qualifiers_def spec_setpiece_chain_def)

lemma bodypart_first_match:
  "get_event_bodypart_qualifiers rq = first_match spec_bodypart_chain rq"
  by (simp add: get_event_bodypart_qualifiers_def spec_bodypart_chain_def)

lemma pass_first_match:
  "get_event_pass_qualifiers rq = first_match spec_pass_chain rq"
  by (simp add: get_event_pass_qualifiers_def spec_pass_chain_def)

lemma card_first_match:
  "get_event_card_qualifiers rq = first_match spec_card_chain rq"
  by (simp add: get_event_card_qualifiers_def spec_card_chain_def)

lemma chains_first_match: "(f, ch) \<in> set chains \<Longrightarrow> f rq = first_match ch rq"
  by (auto simp: chains_def setpiece_first_match bodypart_first_match pass_first_match
      card_first_match)

text \<open>
  C6. For each of the four chains (the source's function \<open>f\<close> and the
  specification's ordered list \<open>ch\<close>) and every raw qualifier mapping: the source's
  chain is the first match over the list in the stated order, it attaches at most one
  qualifier, and when the codes of entry \<open>i\<close> are present and those of every entry
  before it are absent, the qualifier attached is exactly the tag of entry \<open>i\<close>,
  whatever lower-priority codes are present as well.
\<close>

theorem C6_chain_precedence:
  assumes "(f, ch) \<in> set chains"
  shows "f rq = first_match ch rq \<and> length (f rq) \<le> 1 \<and>
         (\<forall>i<length ch. present rq (ch ! i) \<and> (\<forall>j<i. \<not> present rq (ch ! j))
            \<longrightarrow> f rq = [snd (ch ! i)])"
proof -
  have eq: "f rq = first_match ch rq"
    using assms by (rule chains_first_match)
  have len: "length (f rq) \<le> 1"
    unfolding eq by (rule first_match_length)
  have prec: "\<forall>i<length ch. present rq (ch ! i) \<and> (\<forall>j<i. \<not> present rq (ch ! j))
            \<longrightarrow> f rq = [snd (ch ! i)]"
    unfolding eq using first_match_precedence by blast
  from eq len prec show ?thesis by blast
qed

theorem C6_chain_precedence_witness:
  "(get_event_setpiece_qualifiers, spec_setpiece_chain) \<in> set chains
   \<and> has EVENT_QUALIFIER_CORNER_KICK (raw_qualifiers_of [(9, None), (26, None), (6, None)])
   \<and> has EVENT_QUALIFIER_FREE_KICK_SHOT (raw_qualifiers_of [(9, None), (26, None), (6, None)])
   \<and> has EVENT_QUALIFIER_PENALTY (raw_qualifiers_of [(9, None), (26, None), (6, None)])
   \<and> get_event_setpiece_qualifiers (raw_qualifiers_of [(9, None), (26, None), (6, None)])
       = [SetPieceQualifier CORNER_KICK]"
proof -
  have mem: "(get_event_setpiece_qualifiers, spec_setpiece_chain) \<in> set chains"
    by (simp add: chains_def)
  have "get_event_setpiece_qualifiers (raw_qualifiers_of [(9, None), (26, None), (6, None)])
          = first_match spec_setpiece_chain (raw_qualifiers_of [(9, None), (26, None), (6, None)])"
    using C6_chain_precedence [OF mem, of "raw_qualifiers_of [(9, None), (26, None), (6, None)]"]
    by simp
  then show ?thesis
    using mem
    by (simp add: spec_setpiece_chain_def raw_qualifiers_of_def has_def event_qualifier_defs)
qed

section \<open>Qualifiers per event kind (C5)\<close>

lemma deserialize_events_append:
  "deserialize_events env h a st (xs @ ys) =
     bind_err (deserialize_events env h a st xs) (\<lambda>st'. deserialize_events env h a st' ys)"
  by (induction xs arbitrary: st) (simp_all add: bind_err_def split: sum.splits)

lemma receiver_point_Inr:
  "receiver_point env rq = Inr p \<longleftrightarrow>
     (\<exists>v w a b. rq 140 = Some v \<and> float_of env v = Inr a \<and> rq 141 = Some w
        \<and> float_of env w = Inr b \<and> p = Point a b)"
  by (auto simp: receiver_point_def getitem_def bind_err_def split: option.splits sum.splits)

lemma receiver_point_missing:
  assumes "\<not> has 140 rq \<or> \<not> has 141 rq"
  shows "\<exists>err. receiver_point env rq = Inl err
           \<and> err \<in> {KeyError (IntKey 140), KeyError (IntKey 141), TypeError, ValueError}
           \<and> (\<not> has 140 rq \<longrightarrow> err = KeyError (IntKey 140))
           \<and> (rq 140 = Some None \<longrightarrow> err = TypeError)
           \<and> (\<forall>s. rq 140 = Some (Some s) \<and> py_float env s = None \<longrightarrow> err = ValueError)
           \<and> (\<forall>s r. rq 140 = Some (Some s) \<and> py_float env s = Some r
                 \<longrightarrow> err = KeyError (IntKey 141))"
  using assms
  by (auto simp: receiver_point_def getitem_def float_of_def has_def bind_err_def
      split: option.splits sum.splits)

lemma build_event_pass_error:
  assumes "typeId ev = EVENT_TYPE_PASS \<or> typeId ev = EVENT_TYPE_OFFSIDE_PASS"
    and "receiver_point env (raw_qualifiers_of (qualifier ev)) = Inl err"
  shows "build_event env i start ts poss tm ev = Inl err"
  using assms
  by (auto simp: build_event_def Let_def parse_pass_def parse_offside_pass_def event_type_defs)

lemma build_event_qualifiers:
  assumes "build_event env i start ts poss tm ev = Inr e"
  shows "qualifiers e =
           (if typeId ev \<in> set [EVENT_TYPE_PASS, EVENT_TYPE_OFFSIDE_PASS, EVENT_TYPE_SHOT_MISS,
                                 EVENT_TYPE_SHOT_POST, EVENT_TYPE_SHOT_SAVED, EVENT_TYPE_SHOT_GOAL,
                                 EVENT_TYPE_CARD]
            then Some (get_event_qualifiers (raw_qualifiers_of (qualifier ev)))
            else None)"
  using assms
  by (auto simp: build_event_def Let_def generic_event_kwargs_def parse_pass_def
      parse_offside_pass_def parse_shot_def parse_card_def event_type_defs bind_err_def
      split: if_splits sum.splits prod.splits)

lemma chain_absent:
  assumes "(f, ch) \<in> set chains" and "\<forall>entry\<in>set ch. \<not> present rq entry"
  shows "f rq = []"
  using assms by (simp add: chains_first_match first_match_none)

text \<open>
  C5, as amended. The claim has the four chains evaluated and attached for every event
  kind. The dispatcher attaches them for passes, offside passes, the four shot kinds and
  cards only, where \<open>qualifiers\<close> is the concatenation of the set-piece, body-part,
  pass and card chains in that order; for take-on, recovery, foul, out-of-play, formation
  change and generic events it passes \<open>qualifiers=None\<close>. A chain none of whose raw
  codes is present contributes no qualifier.
\<close>

theorem C5_qualifiers_by_kind:
  assumes "build_event env i start ts poss tm ev = Inr e"
  shows "qualifiers e =
           (if typeId ev \<in> set [EVENT_TYPE_PASS, EVENT_TYPE_OFFSIDE_PASS, EVENT_TYPE_SHOT_MISS,
                                 EVENT_TYPE_SHOT_POST, EVENT_TYPE_SHOT_SAVED, EVENT_TYPE_SHOT_GOAL,
                                 EVENT_TYPE_CARD]
            then Some (get_event_qualifiers (raw_qualifiers_of (qualifier ev)))
            else None)
         \<and> get_event_qualifiers (raw_qualifiers_of (qualifier ev)) =
             get_event_setpiece_qualifiers (raw_qualifiers_of (qualifier ev))
             @ get_event_bodypart_qualifiers (raw_qualifiers_of (qualifier ev))
             @ get_event_pass_qualifiers (raw_qualifiers_of (qualifier ev))
             @ get_event_card_qualifiers (raw_qualifiers_of (qualifier ev))
         \<and> (\<forall>(f, ch)\<in>set chains.
               (\<forall>entry\<in>set ch. \<not> present (raw_qualifiers_of (qualifier ev)) entry)
                 \<longrightarrow> f (raw_qualifiers_of (qualifier ev)) = [])"
proof -
  have "\<forall>(f, ch)\<in>set chains.
               (\<forall>entry\<in>set ch. \<not> present (raw_qualifiers_of (qualifier ev)) entry)
                 \<longrightarrow> f (raw_qualifiers_of (qualifier ev)) = []"
    using chain_absent by blast
  then show ?thesis
    using build_event_qualifiers [OF assms] by (simp add: get_event_qualifiers_def)
qed

theorem C5_qualifiers_by_kind_witness:
  "\<exists>e. build_event ex_env 0 0 5000000 (Some ex_home) ex_home
          (ex_event 1 1 [(140, Some ''50''), (141, Some ''50''), (2, None), (72, None)]) = Inr e
        \<and> qualifiers e = Some [BodyPartQualifier LEFT_FOOT, PassQualifier CROSS]"
proof -
  have "\<exists>e. build_event ex_env 0 0 5000000 (Some ex_home) ex_home
          (ex_event 1 1 [(140, Some ''50''), (141, Some ''50''), (2, None), (72, None)]) = Inr e"
    by (simp add: sp_defs ex_defs event_type_defs Let_def)
  then obtain e where e: "build_event ex_env 0 0 5000000 (Some ex_home) ex_home
          (ex_event 1 1 [(140, Some ''50''), (141, Some ''50''), (2, None), (72, None)]) = Inr e"
    by blast
  have "qualifiers e = Some (get_event_qualifiers (raw_qualifiers_of
          (qualifier (ex_event 1 1 [(140, Some ''50''), (141, Some ''50''), (2, None), (72, None)]))))"
    using C5_qualifiers_by_kind [OF e] by (simp add: ex_event_def event_type_defs)
  then have "qualifiers e = Some [BodyPartQualifier LEFT_FOOT, PassQualifier CROSS]"
    by (simp add: ex_event_def raw_qualifiers_of_def has_def get_event_qualifiers_def
        get_event_setpiece_qualifiers_def get_event_bodypart_qualifiers_def
        get_event_pass_qualifiers_def get_event_card_qualifiers_def event_qualifier_defs)
  with e show ?thesis by blast
qed

text \<open>
  The claim as stated fails on a take-on record carrying the corner-kick raw code 6: the
  chains yield the corner-kick qualifier for its raw attributes, and the built event has
  no qualifiers at all.
\<close>

theorem C5_take_on_counterexample:
  "map_sum id (map qualifiers \<circ> records)
     (deserialize ex_env ex_home ex_away ex_periods [ex_event 3 1 [(6, None)]]) = Inr [None]
   \<and> get_event_qualifiers (raw_qualifiers_of [(6, None)]) = [SetPieceQualifier CORNER_KICK]"
  by (simp add: sp_defs ex_defs event_type_defs event_qualifier_defs Let_def)

section \<open>Shots and own goals (C7)\<close>

lemma pow2_powr: "pow2 k = 2 powr (of_int k)"
  by (cases "0 \<le> k") (simp_all add: pow2_def powr_realpow [symmetric] powr_minus field_simps)

lemma pow2_pos: "0 < pow2 k"
  by (simp add: pow2_def)

lemma binade_eq:
  assumes "pow2 k \<le> \<bar>v\<bar>" and "\<bar>v\<bar> < pow2 (k + 1)"
  shows "binade v = k"
proof -
  have pos: "0 < \<bar>v\<bar>" using assms(1) pow2_pos [of k] by linarith
  have "2 powr real_of_int k \<le> \<bar>v\<bar> \<and> \<bar>v\<bar> < 2 powr real_of_int (k + 1)"
    using assms by (simp only: pow2_powr)
  then show ?thesis
    unfolding binade_def using floor_log_eq_powr_iff [OF pos, of 2 k] by simp
qed

lemma round_half_even_of_int: "round_half_even (of_int m) = m"
  by (simp add: round_half_even_def)

lemma round_binary64_exact:
  assumes "binade v = k" and "v = of_int m * pow2 (k - 52)"
  shows "round_binary64 v = v"
proof (cases "v = 0")
  case True
  then show ?thesis by (simp add: round_binary64_def)
next
  case False
  have "v / pow2 (binade v - 52) = of_int m"
    using assms pow2_pos [of "k - 52"] by simp
  then show ?thesis
    using False assms by (simp add: round_binary64_def round_half_even_of_int)
qed

lemma round_binary64_10: "round_binary64 10 = 10"
proof -
  have b: "binade 10 = 3" by (rule binade_eq) (simp_all add: pow2_def)
  show ?thesis
    by (rule round_binary64_exact [OF b, of 5629499534213120]) (simp add: pow2_def)
qed

lemma float_sub_100_90: "float_sub 100 90 = 10"
  by (simp add: float_sub_def round_binary64_10)

lemma round_binary64_90: "round_binary64 90 = 90"
proof -
  have b: "binade 90 = 6" by (rule binade_eq) (simp_all add: pow2_def)
  show ?thesis
    by (rule round_binary64_exact [OF b, of 6333186975989760]) (simp add: pow2_def)
qed

lemma float_sub_100_10: "float_sub 100 10 = 90"
  by (simp add: float_sub_def round_binary64_90)

lemma float_sub_tenth:
  "float_sub 100 (3602879701896397 / 36028797018963968) = 7029837543348634 / 70368744177664"
proof -
  let ?a = "100 - 3602879701896397 / 36028797018963968 :: real"
  have b: "binade ?a = 6" by (rule binade_eq) (simp_all add: pow2_def)
  have q: "?a / pow2 (6 - 52) = 3599276822194500403 / 512"
    by (simp add: pow2_def)
  have r: "round_half_even (3599276822194500403 / 512) = 7029837543348634"
    by (simp add: round_half_even_def Let_def)
  have "?a \<noteq> 0" by simp
  then have "round_binary64 ?a = of_int 7029837543348634 * pow2 (6 - 52)"
    unfolding round_binary64_def b q r by simp
  then show ?thesis by (simp add: float_sub_def pow2_def)
qed

lemma float_sub_back:
  "float_sub 100 (7029837543348634 / 70368744177664) = 7036874417766 / 70368744177664"
proof -
  let ?a = "100 - 7029837543348634 / 70368744177664 :: real"
  have b: "binade ?a = - 4" by (rule binade_eq) (simp_all add: pow2_def)
  have "round_binary64 ?a = ?a"
    by (rule round_binary64_exact [OF b, of 7205759403792384]) (simp add: pow2_def)
  then show ?thesis by (simp add: float_sub_def)
qed

lemma mirror_twice_tenth:
  "float_sub 100 (float_sub 100 (3602879701896397 / 36028797018963968))
     \<noteq> 3602879701896397 / 36028797018963968"
proof -
  have "float_sub 100 (float_sub 100 (3602879701896397 / 36028797018963968))
          = 7036874417766 / 70368744177664"
    by (simp only: float_sub_tenth float_sub_back)
  then show ?thesis by simp
qed

lemma round_binary64_tenth:
  "round_binary64 (1 / 10) = 3602879701896397 / 36028797018963968"
proof -
  have b: "binade (1 / 10) = - 4" by (rule binade_eq) (simp_all add: pow2_def)
  have q: "(1 / 10) / pow2 (- 4 - 52) = (36028797018963968 / 5 :: real)"
    by (simp add: pow2_def)
  have r: "round_half_even (36028797018963968 / 5) = 7205759403792794"
    by (simp add: round_half_even_def Let_def)
  have "round_binary64 (1 / 10) = of_int 7205759403792794 * pow2 (- 4 - 52)"
    unfolding round_binary64_def b q r by simp
  then show ?thesis by (simp add: pow2_def)
qed

lemma float_sub_exact_twice:
  assumes "round_binary64 v = v" and "round_binary64 (100 - v) = 100 - v"
  shows "float_sub 100 (float_sub 100 v) = v"
  using assms by (simp add: float_sub_def)

lemma build_event_shot:
  assumes "typeId ev \<in> set [EVENT_TYPE_SHOT_MISS, EVENT_TYPE_SHOT_POST, EVENT_TYPE_SHOT_SAVED,
                              EVENT_TYPE_SHOT_GOAL]"
    and "build_event env i start ts poss tm ev = Inr e"
  shows "kind e = SHOT
       \<and> result e =
           (if typeId ev = EVENT_TYPE_SHOT_GOAL
            then (if has 28 (raw_qualifiers_of (qualifier ev))
                  then Some (ShotResult OWN_GOAL) else Some (ShotResult GOAL))
            else None)
       \<and> coordinates e =
           Some (if typeId ev = EVENT_TYPE_SHOT_GOAL \<and> has 28 (raw_qualifiers_of (qualifier ev))
                 then Point (float_sub 100 (ev_x ev)) (float_sub 100 (ev_y ev))
                 else Point (ev_x ev) (ev_y ev))"
  using assms
  by (auto simp: build_event_def Let_def generic_event_kwargs_def parse_shot_def
      event_type_defs bind_err_def split: if_splits sum.splits)

lemma build_event_shot_total:
  assumes "typeId ev \<in> set [EVENT_TYPE_SHOT_MISS, EVENT_TYPE_SHOT_POST, EVENT_TYPE_SHOT_SAVED,
                              EVENT_TYPE_SHOT_GOAL]"
    and "\<not> (typeId ev = EVENT_TYPE_SHOT_GOAL \<and> has 374 (raw_qualifiers_of (qualifier ev)))"
  shows "\<exists>e. build_event env i start ts poss tm ev = Inr e"
  using assms
  by (auto simp: build_event_def Let_def parse_shot_def event_type_defs)

lemma mirror_twice_exact:
  assumes "has 28 rq"
    and "round_binary64 (x_of c) = x_of c" and "round_binary64 (100 - x_of c) = 100 - x_of c"
    and "round_binary64 (y_of c) = y_of c" and "round_binary64 (100 - y_of c) = 100 - y_of c"
  shows "fst (parse_shot rq EVENT_TYPE_SHOT_GOAL (fst (parse_shot rq EVENT_TYPE_SHOT_GOAL c))) = c"
  using assms by (simp add: parse_shot_def float_sub_exact_twice)

text \<open>
  C7, as amended. For a record of one of the four shot types: every event built from it
  is a shot; a goal whose raw qualifiers contain code 28 has result OWN_GOAL and the
  record's coordinates mirrored through the pitch centre, \<open>(100 - x, 100 - y)\<close> as
  float subtraction computes them; a goal without the flag has result GOAL and a
  non-goal shot has no result, both with the coordinates unchanged. The builder returns
  an event unless a goal's timestamp correction (code 374) is present. Mirroring sends
  (90, 10) to (10, 90). Mirroring twice returns the original point when the two
  subtractions of the first mirroring are exact on floats, as they are for (90, 10); it
  is not claimed for every point.
\<close>

theorem C7_own_goal_mirroring:
  assumes "typeId ev \<in> set [EVENT_TYPE_SHOT_MISS, EVENT_TYPE_SHOT_POST, EVENT_TYPE_SHOT_SAVED,
                              EVENT_TYPE_SHOT_GOAL]"
  shows "(\<forall>e. build_event env i start ts poss tm ev = Inr e \<longrightarrow>
            kind e = SHOT
          \<and> result e =
              (if typeId ev = EVENT_TYPE_SHOT_GOAL
               then (if has 28 (raw_qualifiers_of (qualifier ev))
                     then Some (ShotResult OWN_GOAL) else Some (ShotResult GOAL))
               else None)
          \<and> coordinates e =
              Some (if typeId ev = EVENT_TYPE_SHOT_GOAL
                       \<and> has 28 (raw_qualifiers_of (qualifier ev))
                    then Point (float_sub 100 (ev_x ev)) (float_sub 100 (ev_y ev))
                    else Point (ev_x ev) (ev_y ev)))
       \<and> (\<not> (typeId ev = EVENT_TYPE_SHOT_GOAL \<and> has 374 (raw_qualifiers_of (qualifier ev)))
            \<longrightarrow> (\<exists>e. build_event env i start ts poss tm ev = Inr e))
       \<and> (\<forall>rq. has 28 rq \<longrightarrow>
            fst (parse_shot rq EVENT_TYPE_SHOT_GOAL (Point 90 10)) = Point 10 90
          \<and> (\<forall>c. round_binary64 (x_of c) = x_of c
                  \<and> round_binary64 (100 - x_of c) = 100 - x_of c
                  \<and> round_binary64 (y_of c) = y_of c
                  \<and> round_binary64 (100 - y_of c) = 100 - y_of c
                \<longrightarrow> fst (parse_shot rq EVENT_TYPE_SHOT_GOAL
                          (fst (parse_shot rq EVENT_TYPE_SHOT_GOAL c))) = c))"
proof -
  have a: "\<forall>e. build_event env i start ts poss tm ev = Inr e \<longrightarrow>
            kind e = SHOT
          \<and> result e =
              (if typeId ev = EVENT_TYPE_SHOT_GOAL
               then (if has 28 (raw_qualifiers_of (qualifier ev))
                     then Some (ShotResult OWN_GOAL) else Some (ShotResult GOAL))
               else None)
          \<and> coordinates e =
              Some (if typeId ev = EVENT_TYPE_SHOT_GOAL
                       \<and> has 28 (raw_qualifiers_of (qualifier ev))
                    then Point (float_sub 100 (ev_x ev)) (float_sub 100 (ev_y ev))
                    else Point (ev_x ev) (ev_y ev))"
    using build_event_shot [OF assms] by blast
  have b: "\<not> (typeId ev = EVENT_TYPE_SHOT_GOAL \<and> has 374 (raw_qualifiers_of (qualifier ev)))
            \<longrightarrow> (\<exists>e. build_event env i start ts poss tm ev = Inr e)"
    using build_event_shot_total [OF assms] by blast
  have c1: "\<forall>rq. has 28 rq \<longrightarrow>
            fst (parse_shot rq EVENT_TYPE_SHOT_GOAL (Point 90 10)) = Point 10 90"
    by (simp add: parse_shot_def float_sub_100_90 float_sub_100_10)
  have c2: "\<forall>rq. has 28 rq \<longrightarrow>
            (\<forall>c. round_binary64 (x_of c) = x_of c
                  \<and> round_binary64 (100 - x_of c) = 100 - x_of c
                  \<and> round_binary64 (y_of c) = y_of c
                  \<and> round_binary64 (100 - y_of c) = 100 - y_of c
                \<longrightarrow> fst (parse_shot rq EVENT_TYPE_SHOT_GOAL
                          (fst (parse_shot rq EVENT_TYPE_SHOT_GOAL c))) = c)"
    using mirror_twice_exact by blast
  from a b c1 c2 show ?thesis by blast
qed

theorem C7_own_goal_mirroring_witness:
  "\<exists>e. build_event ex_env 0 0 5000000 (Some ex_home) ex_home (ex_event 16 1 [(28, None)]) = Inr e
        \<and> kind e = SHOT \<and> result e = Some (ShotResult OWN_GOAL)
        \<and> coordinates e = Some (Point 10 90)
        \<and> fst (parse_shot (raw_qualifiers_of [(28, None)]) EVENT_TYPE_SHOT_GOAL
                 (fst (parse_shot (raw_qualifiers_of [(28, None)]) EVENT_TYPE_SHOT_GOAL
                         (Point 90 10)))) = Point 90 10"
proof -
  have ty: "typeId (ex_event 16 1 [(28, None)])
              \<in> set [EVENT_TYPE_SHOT_MISS, EVENT_TYPE_SHOT_POST, EVENT_TYPE_SHOT_SAVED,
                      EVENT_TYPE_SHOT_GOAL]"
    by (simp add: ex_event_def event_type_defs)
  have no374: "\<not> (typeId (ex_event 16 1 [(28, None)]) = EVENT_TYPE_SHOT_GOAL
                  \<and> has 374 (raw_qualifiers_of (qualifier (ex_event 16 1 [(28, None)]))))"
    by (simp add: ex_event_def raw_qualifiers_of_def has_def)
  have own: "has 28 (raw_qualifiers_of (qualifier (ex_event 16 1 [(28, None)])))"
    by (simp add: ex_event_def raw_qualifiers_of_def has_def)
  have own': "has 28 (raw_qualifiers_of [(28, None)])"
    by (simp add: raw_qualifiers_of_def has_def)
  have goal: "typeId (ex_event 16 1 [(28, None)]) = EVENT_TYPE_SHOT_GOAL"
    by (simp add: ex_event_def event_type_defs)
  note inst = C7_own_goal_mirroring [OF ty, of ex_env 0 0 5000000 "Some ex_home" ex_home]
  from inst no374 obtain e where
    e: "build_event ex_env 0 0 5000000 (Some ex_home) ex_home (ex_event 16 1 [(28, None)]) = Inr e"
    by blast
  from inst e have "kind e = SHOT
      \<and> result e = (if typeId (ex_event 16 1 [(28, None)]) = EVENT_TYPE_SHOT_GOAL
               then (if has 28 (raw_qualifiers_of (qualifier (ex_event 16 1 [(28, None)])))
                     then Some (ShotResult OWN_GOAL) else Some (ShotResult GOAL))
               else None)
      \<and> coordinates e =
              Some (if typeId (ex_event 16 1 [(28, None)]) = EVENT_TYPE_SHOT_GOAL
                       \<and> has 28 (raw_qualifiers_of (qualifier (ex_event 16 1 [(28, None)])))
                    then Point (float_sub 100 (ev_x (ex_event 16 1 [(28, None)])))
                               (float_sub 100 (ev_y (ex_event 16 1 [(28, None)])))
                    else Point (ev_x (ex_event 16 1 [(28, None)])) (ev_y (ex_event 16 1 [(28, None)])))"
    by blast
  with own goal have built: "kind e = SHOT \<and> result e = Some (ShotResult OWN_GOAL)
      \<and> coordinates e = Some (Point 10 90)"
    by (simp add: ex_event_def float_sub_100_90 float_sub_100_10)
  have exact: "round_binary64 (x_of (Point 90 10)) = x_of (Point 90 10)
      \<and> round_binary64 (100 - x_of (Point 90 10)) = 100 - x_of (Point 90 10)
      \<and> round_binary64 (y_of (Point 90 10)) = y_of (Point 90 10)
      \<and> round_binary64 (100 - y_of (Point 90 10)) = 100 - y_of (Point 90 10)"
    by (simp add: round_binary64_10 round_binary64_90)
  from inst own' exact
  have twice: "fst (parse_shot (raw_qualifiers_of [(28, None)]) EVENT_TYPE_SHOT_GOAL
                 (fst (parse_shot (raw_qualifiers_of [(28, None)]) EVENT_TYPE_SHOT_GOAL
                         (Point 90 10)))) = Point 90 10"
    by blast
  from e built twice show ?thesis by blast
qed

text \<open>
  The claim as stated has mirroring twice return the original point. Floats round: for
  an own goal at \<open>x = 0.1\<close> (the float nearest to one tenth, 3602879701896397 / 2^55),
  \<open>100 - x\<close> rounds up to 99.90000000000000568..., and \<open>100 -\<close> that is
  0.09999999999999432..., not \<open>x\<close>.
\<close>

theorem C7_mirror_twice_counterexample:
  "round_binary64 (1 / 10) = 3602879701896397 / 36028797018963968
   \<and> fst (parse_shot (raw_qualifiers_of [(28, None)]) EVENT_TYPE_SHOT_GOAL
            (fst (parse_shot (raw_qualifiers_of [(28, None)]) EVENT_TYPE_SHOT_GOAL
                    (Point (3602879701896397 / 36028797018963968) 10))))
       \<noteq> Point (3602879701896397 / 36028797018963968) 10"
proof -
  have "x_of (fst (parse_shot (raw_qualifiers_of [(28, None)]) EVENT_TYPE_SHOT_GOAL
            (fst (parse_shot (raw_qualifiers_of [(28, None)]) EVENT_TYPE_SHOT_GOAL
                    (Point (3602879701896397 / 36028797018963968) 10)))))
          = float_sub 100 (float_sub 100 (3602879701896397 / 36028797018963968))"
    by (simp add: parse_shot_def raw_qualifiers_of_def has_def)
  then have "x_of (fst (parse_shot (raw_qualifiers_of [(28, None)]) EVENT_TYPE_SHOT_GOAL
            (fst (parse_shot (raw_qualifiers_of [(28, None)]) EVENT_TYPE_SHOT_GOAL
                    (Point (3602879701896397 / 36028797018963968) 10)))))
          \<noteq> x_of (Point (3602879701896397 / 36028797018963968) 10)"
    using mirror_twice_tenth by simp
  then have "fst (parse_shot (raw_qualifiers_of [(28, None)]) EVENT_TYPE_SHOT_GOAL
            (fst (parse_shot (raw_qualifiers_of [(28, None)]) EVENT_TYPE_SHOT_GOAL
                    (Point (3602879701896397 / 36028797018963968) 10))))
       \<noteq> Point (3602879701896397 / 36028797018963968) 10"
    by (rule contrapos_nn) simp
  with round_binary64_tenth show ?thesis by (rule conjI)
qed

section \<open>Passes (C8)\<close>

lemma build_event_pass:
  assumes "typeId ev = EVENT_TYPE_PASS \<or> typeId ev = EVENT_TYPE_OFFSIDE_PASS"
  shows "build_event env i start ts poss tm ev =
           bind_err (receiver_point env (raw_qualifiers_of (qualifier ev))) (\<lambda>rc.
             Inr ((generic_event_kwargs i (ts - start) poss ev tm
                     (case playerId ev of None \<Rightarrow> None | Some pid \<Rightarrow> get_player_by_id env tm pid))
                  \<lparr>kind := PASS,
                   result := Some (PassResult
                     (if typeId ev = EVENT_TYPE_OFFSIDE_PASS then PassResult_OFFSIDE
                      else if outcome ev \<noteq> 0 then PassResult_COMPLETE
                      else PassResult_INCOMPLETE)),
                   receiver_coordinates := Some rc,
                   qualifiers := Some (get_event_qualifiers (raw_qualifiers_of (qualifier ev)))\<rparr>))"
proof (cases "receiver_point env (raw_qualifiers_of (qualifier ev))")
  case (Inl err)
  from assms show ?thesis
  proof
    assume "typeId ev = EVENT_TYPE_PASS"
    then show ?thesis
      by (simp add: Inl build_event_def Let_def parse_pass_def event_type_defs)
  next
    assume "typeId ev = EVENT_TYPE_OFFSIDE_PASS"
    then show ?thesis
      by (simp add: Inl build_event_def Let_def parse_offside_pass_def event_type_defs)
  qed
next
  case (Inr rc)
  from assms show ?thesis
  proof
    assume "typeId ev = EVENT_TYPE_PASS"
    then show ?thesis
      by (simp add: Inr build_event_def Let_def parse_pass_def event_type_defs)
  next
    assume "typeId ev = EVENT_TYPE_OFFSIDE_PASS"
    then show ?thesis
      by (simp add: Inr build_event_def Let_def parse_offside_pass_def event_type_defs)
  qed
qed

text \<open>
  C8. For a pass or offside-pass record: every event built from it is a pass whose result
  is OFFSIDE for an offside pass, and otherwise COMPLETE when the outcome flag is
  non-zero and INCOMPLETE when it is zero; its receiver coordinates are the float values
  of raw qualifier slots 140 and 141, whatever the outcome. Conversely, whenever both
  slots hold values that convert to floats, the event is built with these receiver
  coordinates.
\<close>

theorem C8_pass_result_and_receiver:
  assumes "typeId ev = EVENT_TYPE_PASS \<or> typeId ev = EVENT_TYPE_OFFSIDE_PASS"
  shows "(\<forall>e. build_event env i start ts poss tm ev = Inr e \<longrightarrow>
            kind e = PASS
          \<and> result e = Some (PassResult
               (if typeId ev = EVENT_TYPE_OFFSIDE_PASS then PassResult_OFFSIDE
                else if outcome ev \<noteq> 0 then PassResult_COMPLETE
                else PassResult_INCOMPLETE))
          \<and> (\<exists>v w a b. raw_qualifiers_of (qualifier ev) 140 = Some v \<and> float_of env v = Inr a
                \<and> raw_qualifiers_of (qualifier ev) 141 = Some w \<and> float_of env w = Inr b
                \<and> receiver_coordinates e = Some (Point a b)))
       \<and> (\<forall>v w a b. raw_qualifiers_of (qualifier ev) 140 = Some v \<and> float_of env v = Inr a
                \<and> raw_qualifiers_of (qualifier ev) 141 = Some w \<and> float_of env w = Inr b
            \<longrightarrow> (\<exists>e. build_event env i start ts poss tm ev = Inr e
                   \<and> receiver_coordinates e = Some (Point a b)))"
proof (intro conjI allI impI)
  fix e assume e: "build_event env i start ts poss tm ev = Inr e"
  have unf: "bind_err (receiver_point env (raw_qualifiers_of (qualifier ev))) (\<lambda>rc.
             Inr ((generic_event_kwargs i (ts - start) poss ev tm
                     (case playerId ev of None \<Rightarrow> None | Some pid \<Rightarrow> get_player_by_id env tm pid))
                  \<lparr>kind := PASS,
                   result := Some (PassResult
                     (if typeId ev = EVENT_TYPE_OFFSIDE_PASS then PassResult_OFFSIDE
                      else if outcome ev \<noteq> 0 then PassResult_COMPLETE
                      else PassResult_INCOMPLETE)),
                   receiver_coordinates := Some rc,
                   qualifiers := Some (get_event_qualifiers (raw_qualifiers_of (qualifier ev)))\<rparr>))
          = Inr e"
    using e build_event_pass [OF assms, of env i start ts poss tm] by simp
  obtain rc where rc: "receiver_point env (raw_qualifiers_of (qualifier ev)) = Inr rc"
  proof (cases "receiver_point env (raw_qualifiers_of (qualifier ev))")
    case (Inl err)
    with unf show ?thesis by simp
  next
    case (Inr p)
    then show ?thesis by (rule that)
  qed
  have e_eq: "e = (generic_event_kwargs i (ts - start) poss ev tm
                     (case playerId ev of None \<Rightarrow> None | Some pid \<Rightarrow> get_player_by_id env tm pid))
                  \<lparr>kind := PASS,
                   result := Some (PassResult
                     (if typeId ev = EVENT_TYPE_OFFSIDE_PASS then PassResult_OFFSIDE
                      else if outcome ev \<noteq> 0 then PassResult_COMPLETE
                      else PassResult_INCOMPLETE)),
                   receiver_coordinates := Some rc,
                   qualifiers := Some (get_event_qualifiers (raw_qualifiers_of (qualifier ev)))\<rparr>"
    using unf unfolding rc bind_err_simps by simp
  show "kind e = PASS" by (simp add: e_eq)
  show "result e = Some (PassResult
               (if typeId ev = EVENT_TYPE_OFFSIDE_PASS then PassResult_OFFSIDE
                else if outcome ev \<noteq> 0 then PassResult_COMPLETE
                else PassResult_INCOMPLETE))"
    by (simp add: e_eq)
  from rc obtain v w a b where "raw_qualifiers_of (qualifier ev) 140 = Some v"
    "float_of env v = Inr a" "raw_qualifiers_of (qualifier ev) 141 = Some w"
    "float_of env w = Inr b" "rc = Point a b"
    unfolding receiver_point_Inr by blast
  then show "\<exists>v w a b. raw_qualifiers_of (qualifier ev) 140 = Some v \<and> float_of env v = Inr a
                \<and> raw_qualifiers_of (qualifier ev) 141 = Some w \<and> float_of env w = Inr b
                \<and> receiver_coordinates e = Some (Point a b)"
    by (simp add: e_eq)
next
  fix v w a b
  assume slots: "raw_qualifiers_of (qualifier ev) 140 = Some v \<and> float_of env v = Inr a
                \<and> raw_qualifiers_of (qualifier ev) 141 = Some w \<and> float_of env w = Inr b"
  then have "receiver_point env (raw_qualifiers_of (qualifier ev)) = Inr (Point a b)"
    unfolding receiver_point_Inr by blast
  then show "\<exists>e. build_event env i start ts poss tm ev = Inr e
                   \<and> receiver_coordinates e = Some (Point a b)"
    unfolding build_event_pass [OF assms] by simp
qed

theorem C8_pass_result_and_receiver_witness:
  "\<exists>e. build_event ex_env 0 0 5000000 (Some ex_home) ex_home
          (ex_event 1 0 [(140, Some ''50''), (141, Some ''62.5'')]) = Inr e
        \<and> kind e = PASS \<and> result e = Some (PassResult PassResult_INCOMPLETE)
        \<and> receiver_coordinates e = Some (Point 50 (125 / 2))"
proof -
  have ty: "typeId (ex_event 1 0 [(140, Some ''50''), (141, Some ''62.5'')]) = EVENT_TYPE_PASS
          \<or> typeId (ex_event 1 0 [(140, Some ''50''), (141, Some ''62.5'')]) = EVENT_TYPE_OFFSIDE_PASS"
    by (simp add: ex_event_def event_type_defs)
  have slots: "raw_qualifiers_of (qualifier (ex_event 1 0 [(140, Some ''50''), (141, Some ''62.5'')])) 140
                 = Some (Some ''50'')
      \<and> float_of ex_env (Some ''50'') = Inr 50
      \<and> raw_qualifiers_of (qualifier (ex_event 1 0 [(140, Some ''50''), (141, Some ''62.5'')])) 141
                 = Some (Some ''62.5'')
      \<and> float_of ex_env (Some ''62.5'') = Inr (125 / 2)"
    by (simp add: ex_event_def raw_qualifiers_of_def float_of_def ex_env_def ex_float_def)
  note inst = C8_pass_result_and_receiver [OF ty, of ex_env 0 0 5000000 "Some ex_home" ex_home]
  have "\<exists>e. build_event ex_env 0 0 5000000 (Some ex_home) ex_home
          (ex_event 1 0 [(140, Some ''50''), (141, Some ''62.5'')]) = Inr e
        \<and> receiver_coordinates e = Some (Point 50 (125 / 2))"
    using inst [THEN conjunct2, rule_format, OF slots] .
  then obtain e where
    e: "build_event ex_env 0 0 5000000 (Some ex_home) ex_home
          (ex_event 1 0 [(140, Some ''50''), (141, Some ''62.5'')]) = Inr e"
    and rc: "receiver_coordinates e = Some (Point 50 (125 / 2))"
    by blast
  have "kind e = PASS
     \<and> result e = Some (PassResult
               (if typeId (ex_event 1 0 [(140, Some ''50''), (141, Some ''62.5'')])
                     = EVENT_TYPE_OFFSIDE_PASS then PassResult_OFFSIDE
                else if outcome (ex_event 1 0 [(140, Some ''50''), (141, Some ''62.5'')]) \<noteq> 0
                then PassResult_COMPLETE
                else PassResult_INCOMPLETE))"
    using inst [THEN conjunct1, rule_format, OF e] by simp
  then have "kind e = PASS \<and> result e = Some (PassResult PassResult_INCOMPLETE)"
    by (simp add: ex_event_def event_type_defs)
  with e rc show ?thesis by blast
qed

section \<open>Relative timestamps (C9)\<close>





section \<open>Passes without receiver slots (C10)\<close>

lemma process_event_build_error:
  assumes "try_parsing_date env (timeStamp ev) = Inr ts"
    and "find_period (periods st) (periodId ev) = Some i"
    and "start_timestamp (periods st ! i) = Some start"
    and "acting_team h a ev = Inr tm"
    and "typeId ev \<noteq> EVENT_TYPE_START_PERIOD" and "typeId ev \<noteq> EVENT_TYPE_END_PERIOD"
    and "build_event env i start ts
           (if typeId ev \<in> set BALL_OWNING_EVENTS then Some tm else possession_team st)
           tm ev = Inl err"
  shows "process_event env h a st ev = Inl err"
  using assms by (simp add: process_event_def Let_def)

lemma parse_pass_needs_slots:
  assumes "\<not> has 140 rq \<or> \<not> has 141 rq"
  shows "parse_pass env rq oc \<noteq> Inr r" and "parse_offside_pass env rq \<noteq> Inr r"
proof -
  from receiver_point_missing [OF assms] obtain err where
    "receiver_point env rq = Inl err" by blast
  then show "parse_pass env rq oc \<noteq> Inr r" and "parse_offside_pass env rq \<noteq> Inr r"
    by (simp_all add: parse_pass_def parse_offside_pass_def)
qed

text \<open>
  C10, as amended. A pass or offside-pass record that reaches its builder (after a prefix
  of the feed that was processed without error) and whose raw qualifier mapping lacks
  slot 140 or slot 141 aborts the whole loop, whatever follows it: the error is
  KeyError(140) when slot 140 is absent, KeyError(141) when slot 140 holds a value that
  converts to a float and slot 141 is absent, TypeError when slot 140 is present without
  a value, and ValueError when slot 140 holds a string that is no number (the float
  conversion of slot 140 fails before slot 141 is looked up). The event is neither
  skipped nor built: the two pass builders return nothing for such a mapping.
\<close>

theorem C10_missing_receiver_slot_aborts:
  assumes "deserialize_events env h a st0 pre = Inr st"
    and "try_parsing_date env (timeStamp ev) = Inr ts"
    and "find_period (periods st) (periodId ev) = Some i"
    and "start_timestamp (periods st ! i) = Some start"
    and "acting_team h a ev = Inr tm"
    and "typeId ev = EVENT_TYPE_PASS \<or> typeId ev = EVENT_TYPE_OFFSIDE_PASS"
    and "\<not> has 140 (raw_qualifiers_of (qualifier ev))
         \<or> \<not> has 141 (raw_qualifiers_of (qualifier ev))"
  shows "\<exists>err. deserialize_events env h a st0 (pre @ ev # rest) = Inl err
           \<and> err \<in> {KeyError (IntKey 140), KeyError (IntKey 141), TypeError, ValueError}
           \<and> (\<not> has 140 (raw_qualifiers_of (qualifier ev)) \<longrightarrow> err = KeyError (IntKey 140))
           \<and> (raw_qualifiers_of (qualifier ev) 140 = Some None \<longrightarrow> err = TypeError)
           \<and> (\<forall>s. raw_qualifiers_of (qualifier ev) 140 = Some (Some s)
                    \<and> py_float env s = None \<longrightarrow> err = ValueError)
           \<and> (\<forall>s r. raw_qualifiers_of (qualifier ev) 140 = Some (Some s)
                    \<and> py_float env s = Some r \<longrightarrow> err = KeyError (IntKey 141))
           \<and> (\<forall>oc r. parse_pass env (raw_qualifiers_of (qualifier ev)) oc \<noteq> Inr r)
           \<and> (\<forall>r. parse_offside_pass env (raw_qualifiers_of (qualifier ev)) \<noteq> Inr r)"
proof -
  from receiver_point_missing [OF assms(7), of env] obtain err where
    rp: "receiver_point env (raw_qualifiers_of (qualifier ev)) = Inl err"
    and kinds: "err \<in> {KeyError (IntKey 140), KeyError (IntKey 141), TypeError, ValueError}"
    and k140: "\<not> has 140 (raw_qualifiers_of (qualifier ev)) \<longrightarrow> err = KeyError (IntKey 140)"
    and tyerr: "raw_qualifiers_of (qualifier ev) 140 = Some None \<longrightarrow> err = TypeError"
    and valerr: "\<forall>s. raw_qualifiers_of (qualifier ev) 140 = Some (Some s)
                    \<and> py_float env s = None \<longrightarrow> err = ValueError"
    and k141: "\<forall>s r. raw_qualifiers_of (qualifier ev) 140 = Some (Some s)
                    \<and> py_float env s = Some r \<longrightarrow> err = KeyError (IntKey 141)"
    by blast
  have ty: "typeId ev \<noteq> EVENT_TYPE_START_PERIOD" "typeId ev \<noteq> EVENT_TYPE_END_PERIOD"
    using assms(6) by (auto simp: event_type_defs)
  have "build_event env i start ts
           (if typeId ev \<in> set BALL_OWNING_EVENTS then Some tm else possession_team st)
           tm ev = Inl err"
    using assms(6) rp by (rule build_event_pass_error)
  then have "process_event env h a st ev = Inl err"
    using assms(2-5) ty by (intro process_event_build_error)
  then have "deserialize_events env h a st0 (pre @ ev # rest) = Inl err"
    by (simp add: deserialize_events_append assms(1))
  moreover have "\<forall>oc r. parse_pass env (raw_qualifiers_of (qualifier ev)) oc \<noteq> Inr r"
    using parse_pass_needs_slots(1) [OF assms(7)] by blast
  moreover have "\<forall>r. parse_offside_pass env (raw_qualifiers_of (qualifier ev)) \<noteq> Inr r"
    using parse_pass_needs_slots(2) [OF assms(7)] by blast
  ultimately show ?thesis using kinds k140 tyerr valerr k141 by blast
qed

theorem C10_missing_receiver_slot_aborts_witness:
  "deserialize_events ex_env ex_home ex_away ex_state
     ([] @ ex_event 1 1 [(140, Some ''50'')] # [ex_event 3 1 []])
   = Inl (KeyError (IntKey 141))
   \<and> has 140 (raw_qualifiers_of (qualifier (ex_event 1 1 [(140, Some ''50'')])))"
proof -
  let ?ev = "ex_event 1 1 [(140, Some ''50'')]"
  have pre: "deserialize_events ex_env ex_home ex_away ex_state [] = Inr ex_state"
    by simp
  have ts: "try_parsing_date (ex_env :: raw_event env) (timeStamp ?ev) = Inr 5000000"
    by (simp add: ex_event_def try_parsing_date_def ex_env_def ex_strptime_def)
  have i: "find_period (periods ex_state) (periodId ?ev) = Some 0"
    by (simp add: ex_state_def ex_event_def)
  have start: "start_timestamp (periods ex_state ! 0) = Some 0"
    by (simp add: ex_state_def)
  have tm: "acting_team ex_home ex_away ?ev = Inr ex_home"
    by (simp add: acting_team_def ex_event_def ex_home_def)
  have ty: "typeId ?ev = EVENT_TYPE_PASS \<or> typeId ?ev = EVENT_TYPE_OFFSIDE_PASS"
    by (simp add: ex_event_def event_type_defs)
  have missing: "\<not> has 140 (raw_qualifiers_of (qualifier ?ev))
                \<or> \<not> has 141 (raw_qualifiers_of (qualifier ?ev))"
    by (simp add: ex_event_def raw_qualifiers_of_def has_def)
  have slot: "raw_qualifiers_of (qualifier ?ev) 140 = Some (Some ''50'')
              \<and> py_float (ex_env :: raw_event env) ''50'' = Some 50"
    by (simp add: ex_event_def raw_qualifiers_of_def ex_env_def ex_float_def)
  from C10_missing_receiver_slot_aborts [OF pre ts i start tm ty missing, of "[ex_event 3 1 []]"]
  obtain err where
    run: "deserialize_events ex_env ex_home ex_away ex_state ([] @ ?ev # [ex_event 3 1 []]) = Inl err"
    and k141: "\<forall>s r. raw_qualifiers_of (qualifier ?ev) 140 = Some (Some s)
                    \<and> py_float (ex_env :: raw_event env) s = Some r \<longrightarrow> err = KeyError (IntKey 141)"
    by blast
  from k141 slot have "err = KeyError (IntKey 141)" by blast
  moreover have "has 140 (raw_qualifiers_of (qualifier ?ev))"
    by (simp add: ex_event_def raw_qualifiers_of_def has_def)
  ultimately show ?thesis using run by simp
qed

text \<open>
  The claim as stated names KeyError as the failure. For a pass whose slot 140 is present
  without a value and whose slot 141 is absent, the call fails with the TypeError of
  \<open>float(None)\<close>, raised before slot 141 is looked up.
\<close>

theorem C10_type_error_counterexample:
  "deserialize ex_env ex_home ex_away ex_periods [ex_event 1 1 [(140, None)]] = Inl TypeError
   \<and> \<not> has 141 (raw_qualifiers_of (qualifier (ex_event 1 1 [(140, None)])))"
  by (simp add: sp_defs ex_defs event_type_defs Let_def)

section \<open>Further properties of the two loops\<close>

lemma build_event_ball_owning_team:
  assumes "build_event env i start ts poss tm ev = Inr e"
  shows "ball_owning_team e = poss \<and> team e = Some tm"
  using assms
  by (auto simp: build_event_def Let_def generic_event_kwargs_def parse_pass_def
      parse_offside_pass_def parse_shot_def parse_card_def event_type_defs bind_err_def
      split: if_splits sum.splits prod.splits)

lemma process_event_possession_cases:
  assumes "process_event env h a st ev = Inr st'"
  shows "(possession_team st' = possession_team st \<and> events st' = events st)
       \<or> (\<exists>i start ts tm e.
             try_parsing_date env (timeStamp ev) = Inr ts
           \<and> find_period (periods st) (periodId ev) = Some i
           \<and> start_timestamp (periods st ! i) = Some start
           \<and> acting_team h a ev = Inr tm
           \<and> possession_team st' =
               (if typeId ev \<in> set BALL_OWNING_EVENTS then Some tm else possession_team st)
           \<and> build_event env i start ts (possession_team st') tm ev = Inr e
           \<and> events st' = (if should_include_event env e
                            then events st @ [transform_event env e] else events st))"
  using assms
  by (auto simp: process_event_def bind_err_def Let_def
      split: sum.splits option.splits if_splits)

text \<open>
  One step of the Stats Perform loop: the possession value changes only on a record of a
  possession-transferring type that reaches its builder, and then to the acting team; an
  emitted event was built with the possession value as it is after the step.
\<close>

theorem sp_possession_step:
  assumes "process_event env h a st ev = Inr st'"
  shows "(typeId ev \<notin> set BALL_OWNING_EVENTS \<longrightarrow> possession_team st' = possession_team st)
       \<and> (possession_team st' \<noteq> possession_team st \<longrightarrow>
            typeId ev \<in> set BALL_OWNING_EVENTS
          \<and> (\<exists>tm. acting_team h a ev = Inr tm \<and> possession_team st' = Some tm))
       \<and> (events st' \<noteq> events st \<longrightarrow>
            (\<exists>e. events st' = events st @ [transform_event env e]
                \<and> ball_owning_team e = possession_team st'
                \<and> (typeId ev \<in> set BALL_OWNING_EVENTS \<longrightarrow> ball_owning_team e = team e)))"
proof -
  from process_event_possession_cases [OF assms] show ?thesis
  proof
    assume "possession_team st' = possession_team st \<and> events st' = events st"
    then show ?thesis by simp
  next
    assume "\<exists>i start ts tm e.
             try_parsing_date env (timeStamp ev) = Inr ts
           \<and> find_period (periods st) (periodId ev) = Some i
           \<and> start_timestamp (periods st ! i) = Some start
           \<and> acting_team h a ev = Inr tm
           \<and> possession_team st' =
               (if typeId ev \<in> set BALL_OWNING_EVENTS then Some tm else possession_team st)
           \<and> build_event env i start ts (possession_team st') tm ev = Inr e
           \<and> events st' = (if should_include_event env e
                            then events st @ [transform_event env e] else events st)"
    then obtain i start ts tm e where
      tm: "acting_team h a ev = Inr tm"
      and poss: "possession_team st' =
               (if typeId ev \<in> set BALL_OWNING_EVENTS then Some tm else possession_team st)"
      and built: "build_event env i start ts (possession_team st') tm ev = Inr e"
      and out: "events st' = (if should_include_event env e
                            then events st @ [transform_event env e] else events st)"
      by blast
    from build_event_ball_owning_team [OF built]
    have bo: "ball_owning_team e = possession_team st'" and te: "team e = Some tm"
      by simp_all
    have c1: "typeId ev \<notin> set BALL_OWNING_EVENTS \<longrightarrow> possession_team st' = possession_team st"
      using poss by simp
    have c2: "possession_team st' \<noteq> possession_team st \<longrightarrow>
            typeId ev \<in> set BALL_OWNING_EVENTS
          \<and> (\<exists>tm. acting_team h a ev = Inr tm \<and> possession_team st' = Some tm)"
      using poss tm by (cases "typeId ev \<in> set BALL_OWNING_EVENTS") simp_all
    have c3: "events st' \<noteq> events st \<longrightarrow>
            (\<exists>e. events st' = events st @ [transform_event env e]
                \<and> ball_owning_team e = possession_team st'
                \<and> (typeId ev \<in> set BALL_OWNING_EVENTS \<longrightarrow> ball_owning_team e = team e))"
    proof
      assume "events st' \<noteq> events st"
      with out have "events st' = events st @ [transform_event env e]"
        by (cases "should_include_event env e") simp_all
      moreover have "typeId ev \<in> set BALL_OWNING_EVENTS \<longrightarrow> ball_owning_team e = team e"
        using bo te poss by simp
      ultimately show "\<exists>e. events st' = events st @ [transform_event env e]
                \<and> ball_owning_team e = possession_team st'
                \<and> (typeId ev \<in> set BALL_OWNING_EVENTS \<longrightarrow> ball_owning_team e = team e)"
        using bo by blast
    qed
    from c1 c2 c3 show ?thesis by blast
  qed
qed

theorem sp_possession_step_witness:
  "\<exists>st' e. process_event ex_env ex_home ex_away ex_state
              (ex_event 3 1 []) = Inr st'
          \<and> events st' = [e]
          \<and> possession_team st' = Some ex_home
          \<and> ball_owning_team e = Some ex_home"
proof -
  let ?ev = "ex_event 3 1 []"
  have "case process_event ex_env ex_home ex_away ex_state ?ev of
          Inl err \<Rightarrow> False
        | Inr st' \<Rightarrow> events st' \<noteq> events ex_state \<and> possession_team st' \<noteq> possession_team ex_state"
    by (simp add: sp_defs ex_defs ex_state_def event_type_defs)
  then obtain st' where run: "process_event ex_env ex_home ex_away ex_state ?ev = Inr st'"
    and grew: "events st' \<noteq> events ex_state"
    and changed: "possession_team st' \<noteq> possession_team ex_state"
    by (cases "process_event ex_env ex_home ex_away ex_state ?ev") simp_all
  note inst = sp_possession_step [OF run]
  from inst changed obtain tm where
    tm: "acting_team ex_home ex_away ?ev = Inr tm" and poss: "possession_team st' = Some tm"
    by blast
  from tm have "tm = ex_home" by (simp add: acting_team_def ex_event_def ex_home_def)
  with poss have p: "possession_team st' = Some ex_home" by simp
  from inst grew obtain e where
    out: "events st' = events ex_state @ [transform_event ex_env e]"
    and bo: "ball_owning_team e = possession_team st'"
    by blast
  from out have "events st' = [e]" by (simp add: ex_state_def ex_env_def)
  with p bo show ?thesis by (intro exI [of _ st'] exI [of _ e] conjI run) simp_all
qed

lemma deserialize_events_no_transfer:
  assumes "deserialize_events env h a st evs = Inr st'"
    and "\<forall>ev\<in>set evs. typeId ev \<notin> set BALL_OWNING_EVENTS"
    and "\<forall>e. ball_owning_team (transform_event env e) = ball_owning_team e"
    and "possession_team st = None"
    and "\<forall>e\<in>set (events st). ball_owning_team e = None"
  shows "possession_team st' = None \<and> (\<forall>e\<in>set (events st'). ball_owning_team e = None)"
  using assms
proof (induction evs arbitrary: st)
  case Nil
  then show ?case by simp
next
  case (Cons ev evs)
  from Cons.prems(1) obtain st1 where
    step: "process_event env h a st ev = Inr st1"
    and rest: "deserialize_events env h a st1 evs = Inr st'"
    by (cases "process_event env h a st ev") simp_all
  have nt: "typeId ev \<notin> set BALL_OWNING_EVENTS" using Cons.prems(2) by simp
  from process_event_possession_cases [OF step]
  have inv: "possession_team st1 = None \<and> (\<forall>e\<in>set (events st1). ball_owning_team e = None)"
  proof
    assume "possession_team st1 = possession_team st \<and> events st1 = events st"
    with Cons.prems(4,5) show ?thesis by simp
  next
    assume "\<exists>i start ts tm e.
             try_parsing_date env (timeStamp ev) = Inr ts
           \<and> find_period (periods st) (periodId ev) = Some i
           \<and> start_timestamp (periods st ! i) = Some start
           \<and> acting_team h a ev = Inr tm
           \<and> possession_team st1 =
               (if typeId ev \<in> set BALL_OWNING_EVENTS then Some tm else possession_team st)
           \<and> build_event env i start ts (possession_team st1) tm ev = Inr e
           \<and> events st1 = (if should_include_event env e
                            then events st @ [transform_event env e] else events st)"
    then obtain i start ts tm e where
      poss: "possession_team st1 =
               (if typeId ev \<in> set BALL_OWNING_EVENTS then Some tm else possession_team st)"
      and built: "build_event env i start ts (possession_team st1) tm ev = Inr e"
      and out: "events st1 = (if should_include_event env e
                            then events st @ [transform_event env e] else events st)"
      by blast
    from poss nt Cons.prems(4) have p1: "possession_team st1 = None" by simp
    from build_event_ball_owning_team [OF built] p1 have "ball_owning_team e = None" by simp
    then have "ball_owning_team (transform_event env e) = None"
      using Cons.prems(3) by simp
    with out Cons.prems(5) have "\<forall>e\<in>set (events st1). ball_owning_team e = None"
      by (cases "should_include_event env e") auto
    with p1 show ?thesis by simp
  qed
  show ?case
  proof (rule Cons.IH [OF rest _ Cons.prems(3)])
    show "\<forall>ev\<in>set evs. typeId ev \<notin> set BALL_OWNING_EVENTS" using Cons.prems(2) by simp
    show "possession_team st1 = None" using inv by simp
    show "\<forall>e\<in>set (events st1). ball_owning_team e = None" using inv by simp
  qed
qed

text \<open>
  A Stats Perform feed without a record of a possession-transferring type: every event
  of the dataset has no ball-owning team, provided the transformer leaves that field as
  it is.
\<close>

theorem sp_no_transfer_null_possession:
  assumes "deserialize env h a mps evs = Inr ds"
    and "\<forall>ev\<in>set evs. typeId ev \<notin> set BALL_OWNING_EVENTS"
    and "\<forall>e. ball_owning_team (transform_event env e) = ball_owning_team e"
  shows "\<forall>e\<in>set (records ds). ball_owning_team e = None"
proof -
  from assms(1) obtain ps st' where
    run: "deserialize_events env h a \<lparr>periods = ps, possession_team = None, events = []\<rparr> evs
            = Inr st'"
    and ds: "ds = \<lparr>metadata_periods = periods st', records = events st'\<rparr>"
    by (auto simp: deserialize_def bind_err_def split: if_splits sum.splits)
  from deserialize_events_no_transfer [OF run assms(2,3)] show ?thesis
    by (simp add: ds)
qed

theorem sp_no_transfer_null_possession_witness:
  "\<exists>ds. deserialize ex_env ex_home ex_away ex_periods
           [ex_event 4 1 [], ex_event 17 1 [(33, None)]] = Inr ds
        \<and> map ball_owning_team (records ds) = [None, None]"
proof -
  let ?evs = "[ex_event 4 1 [], ex_event 17 1 [(33, None)]]"
  have "case deserialize ex_env ex_home ex_away ex_periods ?evs of
          Inl err \<Rightarrow> False | Inr ds \<Rightarrow> length (records ds) = 2"
    by (simp add: sp_defs ex_defs event_type_defs)
  then obtain ds where run: "deserialize ex_env ex_home ex_away ex_periods ?evs = Inr ds"
    and len: "length (records ds) = 2"
    by (cases "deserialize ex_env ex_home ex_away ex_periods ?evs") simp_all
  have nt: "\<forall>ev\<in>set ?evs. typeId ev \<notin> set BALL_OWNING_EVENTS"
    by (simp add: ex_event_def event_type_defs)
  have tr: "\<forall>e. ball_owning_team (transform_event (ex_env :: raw_event env) e) = ball_owning_team e"
    by (simp add: ex_env_def)
  from sp_no_transfer_null_possession [OF run nt tr]
  have all: "\<forall>e\<in>set (records ds). ball_owning_team e = None" .
  from len obtain e1 e2 where "records ds = [e1, e2]"
    by (cases "records ds"; cases "tl (records ds)") auto
  with all have "map ball_owning_team (records ds) = [None, None]" by simp
  with run show ?thesis by (intro exI [of _ ds] conjI)
qed

text \<open>
  The Stats Perform loop drops a record whose period identifier matches no tracked
  period, and a record other than a period marker whose period has no start timestamp:
  the state is unchanged and the loop goes on with the remaining records.
\<close>

theorem sp_untracked_period_skipped:
  assumes "try_parsing_date env (timeStamp ev) = Inr ts"
    and "find_period (periods st) (periodId ev) = None
         \<or> (\<exists>i. find_period (periods st) (periodId ev) = Some i
               \<and> start_timestamp (periods st ! i) = None
               \<and> typeId ev \<noteq> EVENT_TYPE_START_PERIOD \<and> typeId ev \<noteq> EVENT_TYPE_END_PERIOD)"
  shows "process_event env h a st ev = Inr st
       \<and> deserialize_events env h a st (ev # rest) = deserialize_events env h a st rest"
proof -
  from assms(2) have "process_event env h a st ev = Inr st"
  proof
    assume "find_period (periods st) (periodId ev) = None"
    then show ?thesis by (simp add: process_event_def assms(1))
  next
    assume "\<exists>i. find_period (periods st) (periodId ev) = Some i
               \<and> start_timestamp (periods st ! i) = None
               \<and> typeId ev \<noteq> EVENT_TYPE_START_PERIOD \<and> typeId ev \<noteq> EVENT_TYPE_END_PERIOD"
    then obtain i where "find_period (periods st) (periodId ev) = Some i"
      "start_timestamp (periods st ! i) = None"
      "typeId ev \<noteq> EVENT_TYPE_START_PERIOD" "typeId ev \<noteq> EVENT_TYPE_END_PERIOD"
      by blast
    then show ?thesis by (simp add: process_event_def assms(1))
  qed
  then show ?thesis by simp
qed

theorem sp_untracked_period_skipped_witness:
  "process_event ex_env ex_home ex_away ex_state ((ex_event 1 1 [])\<lparr>periodId := 2\<rparr>)
     = Inr ex_state
   \<and> find_period (periods ex_state) (periodId ((ex_event 1 1 [])\<lparr>periodId := 2\<rparr>)) = None"
proof -
  let ?ev = "(ex_event 1 1 [])\<lparr>periodId := 2\<rparr>"
  have ts: "try_parsing_date (ex_env :: raw_event env) (timeStamp ?ev) = Inr 5000000"
    by (simp add: ex_event_def try_parsing_date_def ex_env_def ex_strptime_def)
  have none: "find_period (periods ex_state) (periodId ?ev) = None"
    by (simp add: ex_state_def ex_event_def)
  then have disj: "find_period (periods ex_state) (periodId ?ev) = None
         \<or> (\<exists>i. find_period (periods ex_state) (periodId ?ev) = Some i
               \<and> start_timestamp (periods ex_state ! i) = None
               \<and> typeId ?ev \<noteq> EVENT_TYPE_START_PERIOD \<and> typeId ?ev \<noteq> EVENT_TYPE_END_PERIOD)"
    by (rule disjI1)
  from sp_untracked_period_skipped [OF ts disj, of ex_home ex_away "[]"] none
  show ?thesis by simp
qed

text \<open>
  The UEFA loop, on a record that is no period marker, whose period is tracked and whose
  actor's team identifier is neither the home nor the away identifier, fails with
  DeserializationError carrying the message \<open>Unknown team_id\<close> followed by the
  identifier, whatever records follow.
\<close>

theorem uefa_unknown_team_fails:
  assumes "uefa_timestamp ev = Some s" and "fromisoformat env s = Some ts"
    and "type_of ev \<noteq> UEFA_EVENT_TYPE_START_PERIOD"
    and "type_of ev \<noteq> UEFA_EVENT_TYPE_END_PERIOD"
    and "phase_period (uefa_periods st) (phase ev) = Inr i"
    and "primaryActor ev = Some act" and "actor_team_id act = Some tid"
    and "tid \<noteq> team_id h" and "tid \<noteq> team_id a"
  shows "uefa_process_event env h a st ev
           = Inl (DeserializationError (''Unknown team_id '' @ tid))
       \<and> uefa_deserialize_events env h a st (ev # rest)
           = Inl (DeserializationError (''Unknown team_id '' @ tid))"
proof -
  have "uefa_actor_of env h a ev = Inl (DeserializationError (''Unknown team_id '' @ tid))"
    using assms(6-9) by (simp add: uefa_actor_of_def)
  then have "uefa_process_event env h a st ev
           = Inl (DeserializationError (''Unknown team_id '' @ tid))"
    using assms(1-5) by (simp add: uefa_process_event_def)
  then show ?thesis by simp
qed

theorem uefa_unknown_team_fails_witness:
  "uefa_deserialize_events ex_env ex_home ex_away ex_uefa_state
     [(ex_uefa_event ''2'' ''PASS'' ''1970-01-01T00:00:05+00:00'')
        \<lparr>primaryActor := Some \<lparr>actor_team_id = Some ''zzz'', actor_person_id = None\<rparr>\<rparr>]
   = Inl (DeserializationError ''Unknown team_id zzz'')"
proof -
  let ?ev = "(ex_uefa_event ''2'' ''PASS'' ''1970-01-01T00:00:05+00:00'')
        \<lparr>primaryActor := Some \<lparr>actor_team_id = Some ''zzz'', actor_person_id = None\<rparr>\<rparr>"
  have s: "uefa_timestamp ?ev = Some ''1970-01-01T00:00:05+00:00''"
    by (simp add: ex_uefa_event_def)
  have ts: "fromisoformat (ex_env :: uefa_raw_event env) ''1970-01-01T00:00:05+00:00''
              = Some 5000000"
    by (simp add: ex_env_def ex_fromisoformat_def)
  have t1: "type_of ?ev \<noteq> UEFA_EVENT_TYPE_START_PERIOD"
    by (simp add: ex_uefa_event_def UEFA_EVENT_TYPE_START_PERIOD_def)
  have t2: "type_of ?ev \<noteq> UEFA_EVENT_TYPE_END_PERIOD"
    by (simp add: ex_uefa_event_def UEFA_EVENT_TYPE_END_PERIOD_def)
  have i: "phase_period (uefa_periods ex_uefa_state) (phase ?ev) = Inr 0"
    by (simp add: ex_uefa_state_def ex_uefa_event_def phase_period_def PHASE_TO_PERIOD_def
        py_index_def)
  have act: "primaryActor ?ev = Some \<lparr>actor_team_id = Some ''zzz'', actor_person_id = None\<rparr>"
    by (simp add: ex_uefa_event_def)
  have tid: "actor_team_id \<lparr>actor_team_id = Some ''zzz'', actor_person_id = None\<rparr> = Some ''zzz''"
    by simp
  have n1: "''zzz'' \<noteq> team_id ex_home" by (simp add: ex_home_def)
  have n2: "''zzz'' \<noteq> team_id ex_away" by (simp add: ex_away_def)
  from uefa_unknown_team_fails [OF s ts t1 t2 i act tid n1 n2, of "[]"]
  show ?thesis by simp
qed

lemma uefa_build_event_fields:
  "period (uefa_build_event i rel tm pl ev) = i
   \<and> timestamp (uefa_build_event i rel tm pl ev) = rel
   \<and> team (uefa_build_event i rel tm pl ev) = tm
   \<and> ball_owning_team (uefa_build_event i rel tm pl ev) =
       (if type_of ev \<in> set UEFA_BALL_OWNING_EVENTS then tm else None)"
  by (simp add: uefa_build_event_def Let_def)

lemma uefa_process_event_emits:
  assumes "uefa_process_event env h a st ev = Inr st'"
    and "uefa_events st' \<noteq> uefa_events st"
  shows "\<exists>s ts i tm pl start.
           uefa_timestamp ev = Some s \<and> fromisoformat env s = Some ts
         \<and> phase_period (uefa_periods st) (phase ev) = Inr i
         \<and> start_timestamp (uefa_periods st ! i) = Some start
         \<and> uefa_periods st' = uefa_periods st
         \<and> uefa_events st' = uefa_events st
                @ [transform_event env (uefa_build_event i (ts - start) tm pl ev)]"
  using assms
  apply (auto simp: uefa_process_event_def bind_err_def Let_def
      split: sum.splits option.splits if_splits prod.splits)
   apply blast+
  done

text \<open>
  Every event the UEFA loop emits was built for the period its phase indexes, with the
  record's timestamp minus that period's start as relative timestamp; its ball-owning
  team is the acting team when the type is a ball-owning one (SHOT_WIDE) and None
  otherwise.
\<close>

theorem uefa_emitted_event:
  assumes "uefa_process_event env h a st ev = Inr st'"
    and "uefa_events st' \<noteq> uefa_events st"
  shows "\<exists>e i start s ts.
           uefa_timestamp ev = Some s \<and> fromisoformat env s = Some ts
         \<and> phase_period (uefa_periods st) (phase ev) = Inr i
         \<and> start_timestamp (uefa_periods st ! i) = Some start
         \<and> uefa_periods st' = uefa_periods st
         \<and> uefa_events st' = uefa_events st @ [transform_event env e]
         \<and> period e = i
         \<and> timestamp e = ts - start
         \<and> ball_owning_team e =
             (if type_of ev \<in> set UEFA_BALL_OWNING_EVENTS then team e else None)"
proof -
  from uefa_process_event_emits [OF assms] obtain s ts i tm pl start where
    s: "uefa_timestamp ev = Some s" and ts: "fromisoformat env s = Some ts"
    and i: "phase_period (uefa_periods st) (phase ev) = Inr i"
    and start: "start_timestamp (uefa_periods st ! i) = Some start"
    and per: "uefa_periods st' = uefa_periods st"
    and out: "uefa_events st' = uefa_events st
                @ [transform_event env (uefa_build_event i (ts - start) tm pl ev)]"
    by blast
  let ?e = "uefa_build_event i (ts - start) tm pl ev"
  have f1: "period ?e = i" and f2: "timestamp ?e = ts - start"
    and f3: "ball_owning_team ?e =
             (if type_of ev \<in> set UEFA_BALL_OWNING_EVENTS then team ?e else None)"
    using uefa_build_event_fields [of i "ts - start" tm pl ev] by simp_all
  from s ts i start per out f1 f2 f3 show ?thesis by blast
qed

theorem uefa_emitted_event_witness:
  "\<exists>st'. uefa_process_event ex_env ex_home ex_away ex_uefa_state
            (ex_uefa_event ''2'' ''PASS'' ''1970-01-01T00:00:05+00:00'') = Inr st'
         \<and> map timestamp (uefa_events st') = [5000000]
         \<and> map ball_owning_team (uefa_events st') = [None]"
proof -
  let ?ev = "ex_uefa_event ''2'' ''PASS'' ''1970-01-01T00:00:05+00:00''"
  have "case uefa_process_event ex_env ex_home ex_away ex_uefa_state ?ev of
          Inl err \<Rightarrow> False | Inr st' \<Rightarrow> uefa_events st' \<noteq> uefa_events ex_uefa_state"
    by (simp add: uefa_defs ex_defs ex_uefa_state_def Let_def)
  then obtain st' where
    run: "uefa_process_event ex_env ex_home ex_away ex_uefa_state ?ev = Inr st'"
    and grew: "uefa_events st' \<noteq> uefa_events ex_uefa_state"
    by (cases "uefa_process_event ex_env ex_home ex_away ex_uefa_state ?ev") simp_all
  from uefa_emitted_event [OF run grew] obtain e i start s ts where
    s: "uefa_timestamp ?ev = Some s"
    and ts: "fromisoformat (ex_env :: uefa_raw_event env) s = Some ts"
    and i: "phase_period (uefa_periods ex_uefa_state) (phase ?ev) = Inr i"
    and start: "start_timestamp (uefa_periods ex_uefa_state ! i) = Some start"
    and out: "uefa_events st' = uefa_events ex_uefa_state @ [transform_event ex_env e]"
    and rel: "timestamp e = ts - start"
    and bo: "ball_owning_team e =
             (if type_of ?ev \<in> set UEFA_BALL_OWNING_EVENTS then team e else None)"
    by blast
  from s have "s = ''1970-01-01T00:00:05+00:00''" by (simp add: ex_uefa_event_def)
  with ts have ts5: "ts = 5000000" by (simp add: ex_env_def ex_fromisoformat_def)
  from i have "i = 0"
    by (simp add: ex_uefa_state_def ex_uefa_event_def phase_period_def PHASE_TO_PERIOD_def
        py_index_def)
  with start have "start = 0" by (simp add: ex_uefa_state_def)
  with rel ts5 have t: "timestamp e = 5000000" by simp
  from bo have b: "ball_owning_team e = None"
    by (simp add: ex_uefa_event_def UEFA_BALL_OWNING_EVENTS_def EVENT_TYPE_SHOT_WIDE_def)
  from out have "uefa_events st' = [e]" by (simp add: ex_uefa_state_def ex_env_def)
  with t b run show ?thesis by (intro exI [of _ st'] conjI) simp_all
qed

end
